theory Spec2Isabelle
  imports Main "HOL-Library.Word"
begin

section \<open>Data model of taskqueue/task_queue.go\<close>

text \<open>
  Go's \<open>int\<close> (64-bit platforms) and \<open>time.Duration\<close> (an \<open>int64\<close> of nanoseconds)
  are 64-bit words read as two's complement by \<open>sint\<close>; \<open>+\<close> and \<open>*\<close> wrap
  around as Go's do. A \<open>uuid.UUID\<close> is 16 bytes. A \<open>time.Time\<close> is an instant,
  modelled as the number of nanoseconds since the Unix epoch.
\<close>

type_synonym uuid = "128 word"
type_synonym go_int = "64 word"
type_synonym duration = "64 word"
type_synonym time = int
type_synonym bytes = string
type_synonym key = string

definition Second :: duration where
  "Second = 1000000000"

definition uuid_Nil :: uuid where
  "uuid_Nil = 0"

definition Unix :: "time \<Rightarrow> int" where
  \<comment> \<open>\<open>Time.Unix()\<close>: whole seconds since the epoch, rounded down\<close>
  "Unix t = t div 1000000000"

text \<open>
  The store keeps scores as \<open>float64\<close>, and \<open>produceAt\<close> converts the Unix seconds with
  \<open>float64(...)\<close>. Every score of the model is the integer that the \<open>float64\<close> denotes:
  \<open>float64_of_int n\<close> is \<open>n\<close> rounded to 53 significant bits, to nearest, ties to even.
  \<open>excess_bits a\<close> is the number of low bits that do not fit.
\<close>

function excess_bits :: "nat \<Rightarrow> nat" where
  "excess_bits a = (if a < 2 ^ 53 then 0 else Suc (excess_bits (a div 2)))"
  by pat_completeness auto
termination
  by (relation "measure id") auto

declare excess_bits.simps [simp del]

definition float64_of_int :: "int \<Rightarrow> int" where
  "float64_of_int n =
     (let a = nat \<bar>n\<bar>; e = excess_bits a; q = a div 2 ^ e; r = a mod 2 ^ e
      in sgn n * int ((if 2 ^ e < 2 * r \<or> (2 * r = 2 ^ e \<and> odd q) then q + 1 else q) * 2 ^ e))"

definition Add :: "time \<Rightarrow> duration \<Rightarrow> time" where
  \<comment> \<open>\<open>Time.Add(d)\<close>\<close>
  "Add t d = t + sint d"

record 'p Task =
  ID :: uuid
  Payload :: 'p
  RetryCount :: go_int
  Wait :: duration

record TaskQueue =
  taskQueueKey :: key
  inProgressTaskKey :: key
  consumeScriptSha :: string
  maxRetries :: go_int
  operationTimeout :: duration

text \<open>
  Errors as values. \<open>Wrapped msg e\<close> is \<open>fmt.Errorf("msg: %w", e)\<close>;
  \<open>MaxTaskRetries e id n\<close> is \<open>fmt.Errorf("%w: %s, %d", e, id, n)\<close>, which also wraps
  its first argument. \<open>RedisError\<close>, \<open>JsonError\<close> and \<open>FileError\<close> are the failures
  of the external store client, of \<open>encoding/json\<close> and of \<open>os.ReadFile\<close>;
  \<open>HandlerError\<close> is an error of the application's handler. The sentinels
  \<open>ErrNoTaskToConsume\<close>, \<open>ErrInvalidTaskType\<close>, \<open>ErrMaxTaskReties\<close> and the constructor
  \<open>ErrTaskLost\<close> are declared elsewhere in the package; \<open>ErrTaskLost id cause\<close> is
  modelled from the spec: it carries the task id and the underlying cause.
\<close>

datatype error =
    RedisError string
  | JsonError string
  | FileError string
  | HandlerError string
  | ErrNoTaskToConsume
  | ErrInvalidTaskType
  | ErrMaxTaskReties
  | Wrapped string error
  | MaxTaskRetries error uuid go_int
  | ErrTaskLost uuid error

fun errors_Is :: "error \<Rightarrow> error \<Rightarrow> bool" where
  \<comment> \<open>\<open>errors.Is\<close>: follows the chain of \<open>%w\<close> wrappings\<close>
  "errors_Is (Wrapped msg e) target = (Wrapped msg e = target \<or> errors_Is e target)"
| "errors_Is (MaxTaskRetries e i n) target = (MaxTaskRetries e i n = target \<or> errors_Is e target)"
| "errors_Is e target = (e = target)"

datatype level = Debug | Info | Warn | Error

datatype log_entry = Log level string "error option"

subsection \<open>The external store\<close>

text \<open>
  The store is an external collaborator reached through the \<open>Redis\<close> interface
  (\<open>ZAdd\<close>, \<open>Del\<close>, \<open>EvalSha\<close>, \<open>ScriptLoad\<close>). Its keyspace maps a key to a
  sorted set (members with scores, one entry per member) or to a plain string.
  A call may fail for reasons of its own (network, timeout): each call takes a
  \<open>fault\<close>, and a faulted call returns the error and leaves the store as it was.
\<close>

type_synonym zset = "(bytes \<times> int) list"

datatype rvalue = ZSet zset | Str bytes

type_synonym store = "key \<Rightarrow> rvalue option"

definition zset_add :: "zset \<Rightarrow> bytes \<Rightarrow> int \<Rightarrow> zset" where
  "zset_add z m sc = (m, sc) # filter (\<lambda>e. fst e \<noteq> m) z"

definition zset_rem :: "zset \<Rightarrow> bytes \<Rightarrow> zset" where
  "zset_rem z m = filter (\<lambda>e. fst e \<noteq> m) z"

definition redis_ZAdd :: "string option \<Rightarrow> store \<Rightarrow> key \<Rightarrow> int \<Rightarrow> bytes \<Rightarrow> error option \<times> store" where
  \<comment> \<open>Modelled from the spec: \<open>insertScored(key, score, member)\<close>\<close>
  "redis_ZAdd fault s k sc m =
     (case fault of
        Some e \<Rightarrow> (Some (RedisError e), s)
      | None \<Rightarrow>
          (case s k of
             None \<Rightarrow> (None, s(k \<mapsto> ZSet [(m, sc)]))
           | Some (ZSet z) \<Rightarrow> (None, s(k \<mapsto> ZSet (zset_add z m sc)))
           | Some (Str v) \<Rightarrow> (Some (RedisError ''WRONGTYPE''), s)))"

definition redis_Del :: "string option \<Rightarrow> store \<Rightarrow> key \<Rightarrow> error option \<times> store" where
  \<comment> \<open>Modelled from the spec: \<open>deleteKey(key)\<close>, a no-op if the key is absent\<close>
  "redis_Del fault s k =
     (case fault of
        Some e \<Rightarrow> (Some (RedisError e), s)
      | None \<Rightarrow> (None, s(k := None)))"

subsection \<open>Serialization\<close>

text \<open>
  \<open>MarshalBinary\<close> is \<open>json.Marshal\<close> and decoding is \<open>json.Unmarshal\<close>, both of Go's
  standard library: they are parameters of the model. Either may fail.
\<close>

record 'p codec =
  json_Marshal :: "'p Task \<Rightarrow> string + bytes"
  json_Unmarshal :: "bytes \<Rightarrow> string + 'p Task"

definition MarshalBinary :: "('p Task \<Rightarrow> string + 'b) \<Rightarrow> 'p Task \<Rightarrow> error + 'b" where
  \<comment> \<open>the first argument is \<open>json.Marshal\<close>\<close>
  "MarshalBinary marshal t =
     (case marshal t of
        Inl e \<Rightarrow> Inl (Wrapped ''failed to marshal *Task'' (JsonError e))
      | Inr data \<Rightarrow> Inr data)"

subsection \<open>The state a call runs in\<close>

text \<open>
  \<open>store\<close> is the shared store, \<open>logs\<close> the log lines written so far (oldest first),
  \<open>calls\<close> the handler invocations made so far (oldest first).
\<close>

record 'p world =
  store :: store
  logs :: "log_entry list"
  calls :: "(uuid \<times> 'p) list"

definition log :: "level \<Rightarrow> string \<Rightarrow> error option \<Rightarrow> 'p world \<Rightarrow> 'p world" where
  "log l msg e w = w\<lparr>logs := logs w @ [Log l msg e]\<rparr>"

text \<open>
  What the environment decides during one call: the readings of \<open>time.Now()\<close> in
  \<open>getTask\<close> and in \<open>produceRetry\<close>, and the fault, if any, of each store call.
\<close>

record env =
  now_claim :: time
  now_retry :: time
  fault_EvalSha :: "string option"
  fault_ZAdd :: "string option"
  fault_Del :: "string option"

section \<open>Construction\<close>

record Options =
  QueueKey :: string
  Namespace :: string
  StorageAddress :: string
  WorkerID :: string
  MaxRetries :: go_int
  OperationTimeout :: duration

definition NewTaskQueue :: "Options \<Rightarrow> string + string \<Rightarrow> string + string \<Rightarrow> error + TaskQueue" where
  \<comment> \<open>\<open>options\<close> are the options after \<open>setDefaults\<close>; \<open>script_file\<close> is the outcome of
      reading \<open>consume.lua\<close>, \<open>script_load\<close> the outcome of the store's \<open>ScriptLoad\<close>\<close>
  "NewTaskQueue options script_file script_load =
     (case script_file of
        Inl e \<Rightarrow> Inl (Wrapped ''failed to read consume script file'' (FileError e))
      | Inr consumeScriptBytes \<Rightarrow>
          (case script_load of
             Inl e \<Rightarrow> Inl (Wrapped ''failed to load consume script file into redis'' (RedisError e))
           | Inr consumeScriptSHA \<Rightarrow>
               Inr \<lparr>taskQueueKey = ''taskqueue:'' @ Namespace options @ '':tasks:'' @ QueueKey options,
                    inProgressTaskKey =
                      ''taskqueue:'' @ Namespace options @ '':workers:'' @ WorkerID options
                        @ '':tasks:'' @ QueueKey options,
                    consumeScriptSha = consumeScriptSHA,
                    maxRetries = MaxRetries options,
                    operationTimeout = OperationTimeout options\<rparr>))"

section \<open>Producer\<close>

definition produceAt :: "'p codec \<Rightarrow> TaskQueue \<Rightarrow> string option \<Rightarrow> 'p Task \<Rightarrow> time \<Rightarrow> 'p world
    \<Rightarrow> error option \<times> 'p world" where
  \<comment> \<open>the client serializes the member with \<open>MarshalBinary\<close> before it sends the command;
      the score is \<open>float64(executeAt.Unix())\<close>\<close>
  "produceAt c t fault task executeAt w =
     (case MarshalBinary (json_Marshal c) task of
        Inl e \<Rightarrow> (Some (Wrapped ''failed to zadd message'' e), w)
      | Inr data \<Rightarrow>
          (case redis_ZAdd fault (store w) (taskQueueKey t) (float64_of_int (Unix executeAt)) data of
             (Some e, s') \<Rightarrow> (Some (Wrapped ''failed to zadd message'' e), w\<lparr>store := s'\<rparr>)
           | (None, s') \<Rightarrow> (None, w\<lparr>store := s'\<rparr>)))"

definition ProduceAt :: "'p codec \<Rightarrow> TaskQueue \<Rightarrow> uuid \<Rightarrow> string option \<Rightarrow> 'p \<Rightarrow> time \<Rightarrow> 'p world
    \<Rightarrow> (uuid \<times> error option) \<times> 'p world" where
  \<comment> \<open>\<open>new_id\<close> is what \<open>uuid.New()\<close> returns; the result is Go's pair \<open>(uuid.UUID, error)\<close>\<close>
  "ProduceAt c t new_id fault payload executeAt w =
     (let task = \<lparr>ID = new_id, Payload = payload, RetryCount = 0, Wait = 0\<rparr>;
          w1 = log Debug ''producing task'' None w
      in case produceAt c t fault task executeAt w1 of
           (Some err, w2) \<Rightarrow> ((uuid_Nil, Some (Wrapped ''failed to produce task'' err)), w2)
         | (None, w2) \<Rightarrow> ((ID task, None), w2))"

section \<open>Retry with backoff\<close>

definition retry_wait :: "'p Task \<Rightarrow> duration" where
  \<comment> \<open>\<open>wait := time.Second; if task.Wait > 0 { wait = 2 * task.Wait }\<close>\<close>
  "retry_wait task = (if 0 < sint (Wait task) then 2 * Wait task else Second)"

definition retry_task :: "'p Task \<Rightarrow> 'p Task" where
  \<comment> \<open>the \<open>retryTask\<close> that \<open>produceRetry\<close> builds\<close>
  "retry_task task =
     \<lparr>ID = ID task, Payload = Payload task, RetryCount = RetryCount task + 1,
      Wait = retry_wait task\<rparr>"

definition produceRetry :: "'p codec \<Rightarrow> TaskQueue \<Rightarrow> env \<Rightarrow> 'p Task \<Rightarrow> 'p world
    \<Rightarrow> error option \<times> 'p world" where
  "produceRetry c t ev task w =
     (let now = now_retry ev in
      if 0 \<le> sint (maxRetries t) \<and> sint (maxRetries t) \<le> sint (RetryCount task)
      then (Some (MaxTaskRetries ErrMaxTaskReties (ID task) (RetryCount task)), w)
      else
        let wait = retry_wait task;
            retryTask = retry_task task;
            executeAt = Add now wait
        in case produceAt c t (fault_ZAdd ev) retryTask executeAt w of
             (Some err, w') \<Rightarrow> (Some (Wrapped ''failed to produce retry task'' err), w')
           | (None, w') \<Rightarrow> (None, w'))"

section \<open>Claiming a task\<close>

text \<open>
  The claim runs in the store as a script, \<open>consume.lua\<close>, loaded by \<open>NewTaskQueue\<close>
  and called through \<open>EvalSha\<close>. The text of the script is not available; its contract
  is the one the spec gives for the Claim Protocol.
\<close>

fun lowest_due :: "zset \<Rightarrow> int \<Rightarrow> (bytes \<times> int) option" where
  \<comment> \<open>Modelled from the spec: the entry with the lowest score among those with
      score \<open>\<le> now\<close>; among equal scores the store's order decides (here: the first)\<close>
  "lowest_due [] now = None"
| "lowest_due ((m, sc) # z) now =
     (case lowest_due z now of
        None \<Rightarrow> (if sc \<le> now then Some (m, sc) else None)
      | Some (m', sc') \<Rightarrow> (if sc \<le> now \<and> sc \<le> sc' then Some (m, sc) else Some (m', sc')))"

datatype script_result = NoTask | Claimed bytes | ScriptFailed string

definition consume_script :: "store \<Rightarrow> key \<Rightarrow> key \<Rightarrow> int \<Rightarrow> script_result \<times> store" where
  \<comment> \<open>Modelled from the spec: the atomic claim of \<open>consume.lua\<close>, given
      \<open>(scheduleKey, inProgressKey, nowTimestamp)\<close>: find the due entry with the lowest
      score; if there is none return the "no task" sentinel; else remove it from the
      Schedule, record it under \<open>inProgressKey\<close> and return its bytes. One call is one
      indivisible step of the store.\<close>
  "consume_script s scheduleKey inProgressKey now =
     (case s scheduleKey of
        None \<Rightarrow> (NoTask, s)
      | Some (Str v) \<Rightarrow> (ScriptFailed ''WRONGTYPE'', s)
      | Some (ZSet z) \<Rightarrow>
          (case lowest_due z now of
             None \<Rightarrow> (NoTask, s)
           | Some (m, sc) \<Rightarrow>
               (Claimed m, (s(scheduleKey \<mapsto> ZSet (zset_rem z m)))(inProgressKey \<mapsto> Str m))))"

datatype reply = ReplyString bytes | ReplyInt int | ReplyNil

definition StatusOK :: bytes where
  \<comment> \<open>Modelled from the spec: the "no task" sentinel the script replies with; the
      constant is declared elsewhere in the package\<close>
  "StatusOK = ''OK''"

definition redis_EvalSha :: "string option \<Rightarrow> store \<Rightarrow> key \<Rightarrow> key \<Rightarrow> int \<Rightarrow> (error + reply) \<times> store" where
  \<comment> \<open>\<open>EvalSha(ctx, sha, keys, args...).Result()\<close> with the claim script loaded\<close>
  "redis_EvalSha fault s scheduleKey inProgressKey now =
     (case fault of
        Some e \<Rightarrow> (Inl (RedisError e), s)
      | None \<Rightarrow>
          (case consume_script s scheduleKey inProgressKey now of
             (NoTask, s') \<Rightarrow> (Inr (ReplyString StatusOK), s')
           | (Claimed m, s') \<Rightarrow> (Inr (ReplyString m), s')
           | (ScriptFailed e, s') \<Rightarrow> (Inl (RedisError e), s')))"

definition getTask :: "'p codec \<Rightarrow> TaskQueue \<Rightarrow> env \<Rightarrow> 'p world \<Rightarrow> (error + 'p Task) \<times> 'p world" where
  "getTask c t ev w =
     (let now = now_claim ev;
          w1 = log Debug ''fetching task to execute'' None w
      in case redis_EvalSha (fault_EvalSha ev) (store w1) (taskQueueKey t) (inProgressTaskKey t) (Unix now) of
           (Inl err, s') \<Rightarrow> (Inl (Wrapped ''failed to execute consume script'' err), w1\<lparr>store := s'\<rparr>)
         | (Inr taskInterface, s') \<Rightarrow>
             (let w2 = w1\<lparr>store := s'\<rparr> in
              if taskInterface = ReplyString StatusOK
              then (Inl ErrNoTaskToConsume, log Debug ''no tasks to execute'' None w2)
              else
                (case taskInterface of
                   ReplyString taskStr \<Rightarrow>
                     (case json_Unmarshal c taskStr of
                        Inl e \<Rightarrow>
                          (Inl (Wrapped ''failed to unmarshal task and permanently lost it'' (JsonError e)), w2)
                      | Inr task \<Rightarrow> (Inr task, w2))
                 | ReplyInt n \<Rightarrow> (Inl (Wrapped ''failed to cast task'' ErrInvalidTaskType), w2)
                 | ReplyNil \<Rightarrow> (Inl (Wrapped ''failed to cast task'' ErrInvalidTaskType), w2))))"

section \<open>One tick of the consumer\<close>

definition removeInProgressTask :: "TaskQueue \<Rightarrow> env \<Rightarrow> 'p Task \<Rightarrow> 'p world \<Rightarrow> 'p world" where
  "removeInProgressTask t ev task w =
     (case redis_Del (fault_Del ev) (store w) (inProgressTaskKey t) of
        (Some err, s') \<Rightarrow>
          log Warn ''failed to delete worker in progress task, might duplicate if worker restart now''
            (Some err) (w\<lparr>store := s'\<rparr>)
      | (None, s') \<Rightarrow> w\<lparr>store := s'\<rparr>)"

type_synonym 'p ConsumeFunc = "uuid \<Rightarrow> 'p \<Rightarrow> error option"

definition run_handler :: "'p ConsumeFunc \<Rightarrow> 'p Task \<Rightarrow> 'p world \<Rightarrow> error option \<times> 'p world" where
  \<comment> \<open>\<open>consume(ctx, task.ID, task.Payload)\<close>: the invocation is recorded in \<open>calls\<close>\<close>
  "run_handler handler task w =
     (handler (ID task) (Payload task), w\<lparr>calls := calls w @ [(ID task, Payload task)]\<rparr>)"

definition consume :: "'p codec \<Rightarrow> TaskQueue \<Rightarrow> env \<Rightarrow> 'p ConsumeFunc \<Rightarrow> 'p world
    \<Rightarrow> error option \<times> 'p world" where
  \<comment> \<open>the deferred \<open>removeInProgressTask\<close> runs on every return that follows its
      registration, after the result has been computed\<close>
  "consume c t ev handler w =
     (case getTask c t ev w of
        (Inl err, w1) \<Rightarrow>
          (if errors_Is err ErrNoTaskToConsume then (None, w1)
           else (Some (Wrapped ''failed to get task'' err), w1))
      | (Inr task, w1) \<Rightarrow>
          (let w2 = log Debug ''consuming task'' None w1 in
           case run_handler handler task w2 of
             (Some err, w3) \<Rightarrow>
               (let w4 = log Debug ''failed to consume, retrying after backoff'' (Some err) w3 in
                case produceRetry c t ev task w4 of
                  (Some retryErr, w5) \<Rightarrow>
                    (Some (ErrTaskLost (ID task)
                       (Wrapped ''failed to run consume func and failed to enqueue it for retry'' retryErr)),
                     removeInProgressTask t ev task w5)
                | (None, w5) \<Rightarrow>
                    (Some (Wrapped ''failed to run consume func'' err),
                     removeInProgressTask t ev task w5))
           | (None, w3) \<Rightarrow>
               (None, removeInProgressTask t ev task (log Debug ''successfully consumed task'' None w3))))"

section \<open>The consumer loop\<close>

text \<open>
  Each round of the loop's \<open>select\<close> receives either a tick of the timer or the
  cancellation of the context. The run of the loop is driven by the list of what it
  receives; a tick carries what the environment decides during that tick. The loop
  returns \<open>True\<close> when it has returned, \<open>False\<close> when it is still waiting in
  \<open>select\<close> after the last event of the list.
\<close>

datatype event = Tick env | Done

fun Consume :: "'p codec \<Rightarrow> TaskQueue \<Rightarrow> 'p ConsumeFunc \<Rightarrow> event list \<Rightarrow> 'p world \<Rightarrow> bool \<times> 'p world" where
  "Consume c t handler [] w = (False, w)"
| "Consume c t handler (Tick ev # es) w =
     (let w1 = log Info ''consuming task'' None w in
      case consume c t ev handler w1 of
        (Some err, w2) \<Rightarrow>
          Consume c t handler es (log Error ''failed to call consume function'' (Some err) w2)
      | (None, w2) \<Rightarrow> Consume c t handler es w2)"
| "Consume c t handler (Done # es) w = (True, log Info ''stopping'' None w)"

section \<open>Consecutive failures\<close>

text \<open>
  \<open>nth_retry n task\<close> is the task as it stands after \<open>n\<close> failures in a row, each
  rescheduled by \<open>produceRetry\<close>, accepted by the store and decoded back as it was
  encoded: it is the task that the \<open>(n+1)\<close>-th failure submits to \<open>produceRetry\<close>.
\<close>

fun nth_retry :: "nat \<Rightarrow> 'p Task \<Rightarrow> 'p Task" where
  "nth_retry 0 task = task"
| "nth_retry (Suc n) task = retry_task (nth_retry n task)"

definition MaxRetriesExceeded :: "error option \<Rightarrow> bool" where
  \<comment> \<open>the result is an error that \<open>errors.Is\<close> recognises as \<open>ErrMaxTaskReties\<close>\<close>
  "MaxRetriesExceeded r = (case r of None \<Rightarrow> False | Some e \<Rightarrow> errors_Is e ErrMaxTaskReties)"

section \<open>Outcomes of a reschedule\<close>

text \<open>
  \<open>ceiling_reached\<close> is the guard of \<open>produceRetry\<close>. \<open>reschedule_fails\<close> says that the
  reschedule of \<open>task\<close> on the store \<open>s\<close> does not go through: the retry task cannot be
  serialized, or the store's \<open>ZAdd\<close> returns an error. \<open>is_TaskLost r i\<close> says that the
  result \<open>r\<close> is an \<open>ErrTaskLost\<close> carrying the id \<open>i\<close>.
\<close>

definition ceiling_reached :: "TaskQueue \<Rightarrow> 'p Task \<Rightarrow> bool" where
  "ceiling_reached t task \<longleftrightarrow> 0 \<le> sint (maxRetries t) \<and> sint (maxRetries t) \<le> sint (RetryCount task)"

definition reschedule_fails :: "'p codec \<Rightarrow> TaskQueue \<Rightarrow> env \<Rightarrow> 'p Task \<Rightarrow> store \<Rightarrow> bool" where
  "reschedule_fails c t ev task s =
     (case json_Marshal c (retry_task task) of
        Inl e \<Rightarrow> True
      | Inr data \<Rightarrow>
          fst (redis_ZAdd (fault_ZAdd ev) s (taskQueueKey t)
                 (float64_of_int (Unix (Add (now_retry ev) (retry_wait task)))) data) \<noteq> None)"

definition is_TaskLost :: "error option \<Rightarrow> uuid \<Rightarrow> bool" where
  "is_TaskLost r i = (case r of Some (ErrTaskLost j cause) \<Rightarrow> j = i | _ \<Rightarrow> False)"

section \<open>Reading the Schedule\<close>

text \<open>The entries of the sorted set at a key; none if the key is absent.\<close>

definition zset_at :: "store \<Rightarrow> key \<Rightarrow> zset" where
  "zset_at s k = (case s k of Some (ZSet z) \<Rightarrow> z | _ \<Rightarrow> [])"

section \<open>Several workers claiming\<close>

text \<open>
  \<open>due z now\<close> are the entries of the Schedule that are due at \<open>now\<close>.
  \<open>claim_all\<close> is modelled from the spec: the store runs the claim script of any number
  of concurrent workers one invocation at a time, each indivisible, in some order. The
  list gives that order: for each invocation the worker's in-progress key and its
  \<open>nowTimestamp\<close>.
\<close>

definition due :: "zset \<Rightarrow> int \<Rightarrow> zset" where
  "due z now = filter (\<lambda>e. snd e \<le> now) z"

fun claim_all :: "store \<Rightarrow> key \<Rightarrow> (key \<times> int) list \<Rightarrow> script_result list \<times> store" where
  \<comment> \<open>Modelled from the spec: concurrent invocations of the atomic claim, serialized by
      the store\<close>
  "claim_all s scheduleKey [] = ([], s)"
| "claim_all s scheduleKey ((inProgressKey, now) # rest) =
     (case consume_script s scheduleKey inProgressKey now of
        (r, s') \<Rightarrow> (case claim_all s' scheduleKey rest of (rs, s'') \<Rightarrow> (r # rs, s'')))"

text \<open>The entries that a list of claim results handed out, in order.\<close>

fun claimed_tasks :: "script_result list \<Rightarrow> bytes list" where
  "claimed_tasks [] = []"
| "claimed_tasks (Claimed m # rs) = m # claimed_tasks rs"
| "claimed_tasks (NoTask # rs) = claimed_tasks rs"
| "claimed_tasks (ScriptFailed e # rs) = claimed_tasks rs"

text \<open>
  The same at the level of \<open>getTask\<close>: the workers, each with its own queue handle and
  its own environment, call \<open>getTask\<close> one after the other on the shared store.
\<close>

fun getTask_all :: "'p codec \<Rightarrow> (TaskQueue \<times> env) list \<Rightarrow> 'p world
    \<Rightarrow> (error + 'p Task) list \<times> 'p world" where
  "getTask_all c [] w = ([], w)"
| "getTask_all c ((t, ev) # rest) w =
     (case getTask c t ev w of
        (r, w') \<Rightarrow> (case getTask_all c rest w' of (rs, w'') \<Rightarrow> (r # rs, w'')))"

section \<open>Observing the loop\<close>

text \<open>
  \<open>tick_errors\<close> collects, in order, the errors that \<open>consume\<close> returns to the loop in the
  ticks received before the cancellation. \<open>level_logs l\<close> keeps the log lines of level
  \<open>l\<close>; a list of log lines is \<open>quiet\<close> when it holds debug lines and warnings only.
\<close>

fun tick_errors :: "'p codec \<Rightarrow> TaskQueue \<Rightarrow> 'p ConsumeFunc \<Rightarrow> event list \<Rightarrow> 'p world \<Rightarrow> error list" where
  "tick_errors c t handler [] w = []"
| "tick_errors c t handler (Tick ev # es) w =
     (case consume c t ev handler (log Info ''consuming task'' None w) of
        (Some err, w2) \<Rightarrow>
          err # tick_errors c t handler es (log Error ''failed to call consume function'' (Some err) w2)
      | (None, w2) \<Rightarrow> tick_errors c t handler es w2)"
| "tick_errors c t handler (Done # es) w = []"

definition level_logs :: "level \<Rightarrow> log_entry list \<Rightarrow> log_entry list" where
  "level_logs l ls = filter (\<lambda>x. case x of Log l' msg e \<Rightarrow> l' = l) ls"

definition quiet :: "log_entry list \<Rightarrow> bool" where
  "quiet ls \<longleftrightarrow> (\<forall>x \<in> set ls. case x of Log l msg e \<Rightarrow> l = Debug \<or> l = Warn)"

section \<open>Example values\<close>

text \<open>A queue as \<open>examples/simple/main.go\<close> configures it, with \<open>maxRetries = k\<close>.\<close>

definition example_queue :: "go_int \<Rightarrow> TaskQueue" where
  "example_queue k =
     \<lparr>taskQueueKey = ''taskqueue:simple:tasks:dummy-consumer'',
      inProgressTaskKey = ''taskqueue:simple:workers:worker1:tasks:dummy-consumer'',
      consumeScriptSha = ''sha'', maxRetries = k, operationTimeout = 60 * Second\<rparr>"

definition example_env :: env where
  "example_env =
     \<lparr>now_claim = 5000000000, now_retry = 5200000000,
      fault_EvalSha = None, fault_ZAdd = None, fault_Del = None\<rparr>"

definition empty_world :: "'p world" where
  "empty_world = \<lparr>store = Map.empty, logs = [], calls = []\<rparr>"

text \<open>
  A codec that knows one task, a world whose Schedule holds that task, due at second 5,
  the world right after its claim by \<open>worker1\<close>, and a handler that fails.
\<close>

definition example_task :: "unit Task" where
  "example_task = \<lparr>ID = 7, Payload = (), RetryCount = 0, Wait = 0\<rparr>"

definition example_codec :: "unit codec" where
  "example_codec =
     \<lparr>json_Marshal = (\<lambda>t. Inr (if t = example_task then ''task0'' else ''task-other'')),
      json_Unmarshal = (\<lambda>b. if b = ''task0'' then Inr example_task else Inl ''invalid character'')\<rparr>"

definition one_task_world :: "unit world" where
  "one_task_world =
     \<lparr>store = [''taskqueue:simple:tasks:dummy-consumer'' \<mapsto> ZSet [(''task0'', 5)]],
      logs = [], calls = []\<rparr>"

definition claimed_world :: "unit world" where
  "claimed_world =
     \<lparr>store = [''taskqueue:simple:tasks:dummy-consumer'' \<mapsto> ZSet [],
               ''taskqueue:simple:workers:worker1:tasks:dummy-consumer'' \<mapsto> Str ''task0''],
      logs = [Log Debug ''fetching task to execute'' None], calls = []\<rparr>"

definition failing_handler :: "unit ConsumeFunc" where
  "failing_handler i p = Some (HandlerError ''boom'')"

text \<open>A world whose Schedule holds bytes that do not decode, due at second 5.\<close>

definition corrupt_world :: "unit world" where
  "corrupt_world =
     \<lparr>store = [''taskqueue:simple:tasks:dummy-consumer'' \<mapsto> ZSet [(''garbage'', 5)]],
      logs = [], calls = []\<rparr>"

text \<open>A world whose Schedule holds, due at second 5, the bytes of the "no task" sentinel.\<close>

definition sentinel_world :: "unit world" where
  "sentinel_world =
     \<lparr>store = [''taskqueue:simple:tasks:dummy-consumer'' \<mapsto> ZSet [(''OK'', 5)]],
      logs = [], calls = []\<rparr>"

text \<open>A world in which the key of the Schedule holds a plain string.\<close>

definition wrongtype_world :: "unit world" where
  "wrongtype_world =
     \<lparr>store = [''taskqueue:simple:tasks:dummy-consumer'' \<mapsto> Str ''not a sorted set''],
      logs = [], calls = []\<rparr>"

section \<open>Properties\<close>

subsection \<open>Auxiliary facts\<close>

lemma excess_bits_small: "a < 2 ^ 53 \<Longrightarrow> excess_bits a = 0"
  by (simp add: excess_bits.simps)

lemma excess_bits_step: "2 ^ 53 \<le> a \<Longrightarrow> excess_bits a = Suc (excess_bits (a div 2))"
  by (subst excess_bits.simps) simp

lemma float64_of_int_exact: "\<bar>n\<bar> < 2 ^ 53 \<Longrightarrow> float64_of_int n = n"
proof -
  assume a: "\<bar>n\<bar> < 2 ^ 53"
  then have "nat \<bar>n\<bar> < 2 ^ 53"
    by (simp add: nat_less_iff)
  then have "excess_bits (nat \<bar>n\<bar>) = 0"
    by (rule excess_bits_small)
  then show ?thesis
    by (simp add: float64_of_int_def Let_def mult_sgn_abs)
qed

lemma float64_of_int_exact_le: "\<bar>n\<bar> \<le> 2 ^ 53 \<Longrightarrow> float64_of_int n = n"
proof (cases "\<bar>n\<bar> < 2 ^ 53")
  case True
  then show ?thesis by (rule float64_of_int_exact)
next
  case False
  assume "\<bar>n\<bar> \<le> 2 ^ 53"
  with False have "n = 9007199254740992 \<or> n = - 9007199254740992"
    by auto
  moreover have "excess_bits 9007199254740992 = 1"
    by (simp add: excess_bits_step excess_bits_small)
  ultimately show ?thesis
    by (auto simp: float64_of_int_def Let_def)
qed

lemma excess_bits_example: "excess_bits 9007199254740993 = 1"
  by (simp add: excess_bits_step excess_bits_small)

lemma sint_Second: "sint Second = 1000000000"
  by (simp add: Second_def)

lemma sint_double:
  assumes "0 < sint (x::64 word)" "sint x < 2 ^ 62"
  shows "sint (2 * x) = 2 * sint x"
proof -
  have "sint (2 * x) = signed_take_bit 63 (2 * sint x)"
    by (simp add: sint_word_ariths)
  also have "\<dots> = 2 * sint x"
    using assms by (intro signed_take_bit_int_eq_self) auto
  finally show ?thesis .
qed

lemma retry_wait_max:
  assumes "sint (Wait task) \<le> 0 \<or> (500000000 \<le> sint (Wait task) \<and> sint (Wait task) < 2 ^ 62)"
  shows "sint (retry_wait task) = max 1000000000 (2 * sint (Wait task))"
  using assms by (auto simp: retry_wait_def sint_Second sint_double)

lemma produceAt_None:
  assumes "produceAt c t fault task at w = (None, w')"
  shows "fault = None \<and> (\<exists>data. json_Marshal c task = Inr data \<and>
           redis_ZAdd None (store w) (taskQueueKey t) (float64_of_int (Unix at)) data = (None, store w') \<and>
           w' = w\<lparr>store := store w'\<rparr>)"
  using assms
  by (auto simp: produceAt_def MarshalBinary_def redis_ZAdd_def
      split: sum.splits option.splits rvalue.splits prod.splits)

lemma redis_ZAdd_None:
  assumes "redis_ZAdd fault s k sc m = (None, s')"
  shows "\<exists>z. s' k = Some (ZSet z) \<and> (m, sc) \<in> set z \<and> (\<forall>k'. k' \<noteq> k \<longrightarrow> s' k' = s k')"
  using assms
  by (auto simp: redis_ZAdd_def zset_add_def split: option.splits rvalue.splits)

lemma produceRetry_None:
  assumes "produceRetry c t ev task w = (None, w')"
  shows "\<not> (0 \<le> sint (maxRetries t) \<and> sint (maxRetries t) \<le> sint (RetryCount task))"
    and "produceAt c t (fault_ZAdd ev) (retry_task task) (Add (now_retry ev) (retry_wait task)) w = (None, w')"
  using assms
  by (auto simp: produceRetry_def Let_def split: if_splits prod.splits option.splits)


text \<open>
  The two keys of a queue built by \<open>NewTaskQueue\<close> differ, and the example queue is the
  one \<open>NewTaskQueue\<close> builds from the options of \<open>examples/simple/main.go\<close>.
\<close>

lemma NewTaskQueue_keys_differ:
  assumes "NewTaskQueue options script_file script_load = Inr t"
  shows "inProgressTaskKey t \<noteq> taskQueueKey t"
proof -
  have "length (inProgressTaskKey t) \<noteq> length (taskQueueKey t)"
    using assms by (auto simp: NewTaskQueue_def split: sum.splits)
  then show ?thesis by auto
qed

lemma NewTaskQueue_example:
  "NewTaskQueue
     \<lparr>QueueKey = ''dummy-consumer'', Namespace = ''simple'', StorageAddress = ''localhost:6379'',
      WorkerID = ''worker1'', MaxRetries = k, OperationTimeout = 60 * Second\<rparr>
     (Inr ''script'') (Inr ''sha'')
   = Inr (example_queue k)"
  by (simp add: NewTaskQueue_def example_queue_def)

subsection \<open>Backoff of the rescheduled task\<close>

text \<open>
  C1 (as the code has it). When the task is below the retry ceiling and the store
  accepts the reschedule, the Schedule then holds the serialized task with the same id
  and payload, \<open>RetryCount + 1\<close> and the new wait, at score \<open>now + wait\<close> in Unix
  seconds. The new wait is one second when the previous wait is not positive, and twice
  the previous wait (a 64-bit count of nanoseconds) when it is positive. It equals
  \<open>max(1 s, 2 \<times> previous wait)\<close> whenever the previous wait is not positive, or is at
  least half a second and below \<open>2^62\<close> nanoseconds; a previous wait of 0 gives exactly
  one second.
\<close>

theorem produceRetry_backoff:
  assumes below: "\<not> (0 \<le> sint (maxRetries t) \<and> sint (maxRetries t) \<le> sint (RetryCount task))"
    and ok: "produceRetry c t ev task w = (None, w')"
  shows "(\<exists>data z.
            json_Marshal c \<lparr>ID = ID task, Payload = Payload task,
                            RetryCount = RetryCount task + 1, Wait = retry_wait task\<rparr> = Inr data
            \<and> store w' (taskQueueKey t) = Some (ZSet z)
            \<and> (data, float64_of_int (Unix (now_retry ev + sint (retry_wait task)))) \<in> set z)
       \<and> retry_wait task = (if 0 < sint (Wait task) then 2 * Wait task else Second)
       \<and> (sint (Wait task) \<le> 0 \<or> (500000000 \<le> sint (Wait task) \<and> sint (Wait task) < 2 ^ 62)
            \<longrightarrow> sint (retry_wait task) = max (sint Second) (2 * sint (Wait task)))
       \<and> (Wait task = 0 \<longrightarrow> sint (retry_wait task) = 1000000000)"
proof -
  from produceRetry_None(2)[OF ok] produceAt_None
  obtain data where d: "json_Marshal c (retry_task task) = Inr data"
    and z: "redis_ZAdd None (store w) (taskQueueKey t) (float64_of_int (Unix (Add (now_retry ev) (retry_wait task)))) data
              = (None, store w')"
    by blast
  from redis_ZAdd_None[OF z] obtain zs where
    "store w' (taskQueueKey t) = Some (ZSet zs)"
    "(data, float64_of_int (Unix (Add (now_retry ev) (retry_wait task)))) \<in> set zs"
    by blast
  with d have "\<exists>data z.
            json_Marshal c \<lparr>ID = ID task, Payload = Payload task,
                            RetryCount = RetryCount task + 1, Wait = retry_wait task\<rparr> = Inr data
            \<and> store w' (taskQueueKey t) = Some (ZSet z)
            \<and> (data, float64_of_int (Unix (now_retry ev + sint (retry_wait task)))) \<in> set z"
    unfolding retry_task_def Add_def by blast
  moreover have "retry_wait task = (if 0 < sint (Wait task) then 2 * Wait task else Second)"
    by (simp add: retry_wait_def)
  moreover have "sint (Wait task) \<le> 0 \<or> (500000000 \<le> sint (Wait task) \<and> sint (Wait task) < 2 ^ 62)
            \<longrightarrow> sint (retry_wait task) = max (sint Second) (2 * sint (Wait task))"
    using retry_wait_max[of task] by (simp add: sint_Second)
  moreover have "Wait task = 0 \<longrightarrow> sint (retry_wait task) = 1000000000"
    by (simp add: retry_wait_def sint_Second)
  ultimately show ?thesis by blast
qed

theorem produceRetry_backoff_witness:
  "\<not> (0 \<le> sint (maxRetries (example_queue (- 1)))
       \<and> sint (maxRetries (example_queue (- 1))) \<le> sint (RetryCount \<lparr>ID = 7 :: uuid, Payload = (), RetryCount = 0, Wait = 0\<rparr>))
   \<and> produceRetry \<lparr>json_Marshal = (\<lambda>t. Inr ''task''), json_Unmarshal = (\<lambda>b. Inl ''unused'')\<rparr>
        (example_queue (- 1)) example_env \<lparr>ID = 7, Payload = (), RetryCount = 0, Wait = 0\<rparr> empty_world
      = (None, \<lparr>store = [''taskqueue:simple:tasks:dummy-consumer'' \<mapsto> ZSet [(''task'', 6)]],
                logs = [], calls = []\<rparr>)
   \<and> Wait \<lparr>ID = 7 :: uuid, Payload = (), RetryCount = 0, Wait = 0\<rparr> = 0
   \<and> sint (retry_wait \<lparr>ID = 7, Payload = (), RetryCount = 0, Wait = 0\<rparr>) = max (sint Second) (2 * sint (0 :: duration))
   \<and> sint (retry_wait \<lparr>ID = 7, Payload = (), RetryCount = 0, Wait = 0\<rparr>) = 1000000000"
proof -
  have h1: "\<not> (0 \<le> sint (maxRetries (example_queue (- 1)))
       \<and> sint (maxRetries (example_queue (- 1))) \<le> sint (RetryCount \<lparr>ID = 7 :: uuid, Payload = (), RetryCount = 0, Wait = 0\<rparr>))"
    by (simp add: example_queue_def)
  have h2: "produceRetry \<lparr>json_Marshal = (\<lambda>t. Inr ''task''), json_Unmarshal = (\<lambda>b. Inl ''unused'')\<rparr>
        (example_queue (- 1)) example_env \<lparr>ID = 7, Payload = (), RetryCount = 0, Wait = 0\<rparr> empty_world
      = (None, \<lparr>store = [''taskqueue:simple:tasks:dummy-consumer'' \<mapsto> ZSet [(''task'', 6)]],
                logs = [], calls = []\<rparr>)"
    by (simp add: produceRetry_def produceAt_def MarshalBinary_def redis_ZAdd_def example_queue_def
      example_env_def empty_world_def retry_task_def retry_wait_def Add_def Unix_def float64_of_int_exact Second_def)
  show ?thesis
    using h1 h2 produceRetry_backoff [OF h1 h2] by (simp add: Second_def)
qed

text \<open>
  C1 as stated fails for a positive wait below half a second: a task with a wait of one
  nanosecond is rescheduled with a wait of two nanoseconds, where
  \<open>max(1 s, 2 \<times> 1 ns)\<close> is one second. It also fails where the doubling leaves the
  64-bit range: a wait of \<open>2^33\<close> seconds is doubled to a negative wait.
\<close>

theorem produceRetry_short_wait_counterexample:
  "produceRetry
     \<lparr>json_Marshal = (\<lambda>t. Inr (if Wait t = 2 then ''Wait=2ns'' else ''Wait=other'')),
      json_Unmarshal = (\<lambda>b. Inl ''unused'')\<rparr>
     (example_queue (- 1)) example_env
     \<lparr>ID = 7, Payload = (), RetryCount = 0, Wait = 1\<rparr> empty_world
   = (None, \<lparr>store = [''taskqueue:simple:tasks:dummy-consumer'' \<mapsto> ZSet [(''Wait=2ns'', 5)]],
             logs = [], calls = []\<rparr>)
   \<and> sint (retry_wait \<lparr>ID = 7, Payload = (), RetryCount = 0, Wait = 1\<rparr>) = 2
   \<and> max (sint Second) (2 * sint (1 :: duration)) = 1000000000
   \<and> sint (retry_wait \<lparr>ID = 7, Payload = (), RetryCount = 34, Wait = 8589934592000000000\<rparr>)
       = - 1266874889709551616
   \<and> max (sint Second) (2 * sint (8589934592000000000 :: duration)) = 17179869184000000000"
  by (simp add: produceRetry_def produceAt_def MarshalBinary_def redis_ZAdd_def example_queue_def
      example_env_def empty_world_def retry_task_def retry_wait_def Add_def Unix_def float64_of_int_exact Second_def)

subsection \<open>Auxiliary facts on consecutive failures\<close>

lemma sint_of_nat_64:
  assumes "n < 2 ^ 63"
  shows "sint (of_nat n :: 64 word) = int n"
proof -
  have "sint (of_nat n :: 64 word) = signed_take_bit 63 (int n)"
    by (simp add: signed_of_nat)
  also have "\<dots> = int n"
    using assms by (intro signed_take_bit_int_eq_self) auto
  finally show ?thesis .
qed

lemma sint_less_64: "sint (x :: 64 word) < 2 ^ 63"
  using sint_lt[of x] by simp

lemma RetryCount_nth_retry: "RetryCount (nth_retry n task) = RetryCount task + of_nat n"
  by (induction n) (simp_all add: retry_task_def)

lemma ID_nth_retry: "ID (nth_retry n task) = ID task"
  by (induction n) (simp_all add: retry_task_def)

lemma Payload_nth_retry: "Payload (nth_retry n task) = Payload task"
  by (induction n) (simp_all add: retry_task_def)

lemma produceAt_not_max:
  "\<not> MaxRetriesExceeded (fst (produceAt c t fault task at w))"
  by (auto simp: produceAt_def MarshalBinary_def redis_ZAdd_def MaxRetriesExceeded_def
      split: sum.splits option.splits rvalue.splits prod.splits)

lemma produceRetry_max_iff:
  "MaxRetriesExceeded (fst (produceRetry c t ev task w))
     \<longleftrightarrow> 0 \<le> sint (maxRetries t) \<and> sint (maxRetries t) \<le> sint (RetryCount task)"
proof (cases "0 \<le> sint (maxRetries t) \<and> sint (maxRetries t) \<le> sint (RetryCount task)")
  case True
  then show ?thesis by (simp add: produceRetry_def MaxRetriesExceeded_def)
next
  case False
  have "\<not> MaxRetriesExceeded (fst (produceRetry c t ev task w))"
    using produceAt_not_max[of c t "fault_ZAdd ev" "retry_task task"
        "Add (now_retry ev) (retry_wait task)" w] False
    by (auto simp: produceRetry_def Let_def MaxRetriesExceeded_def split: prod.splits option.splits)
  with False show ?thesis by blast
qed

subsection \<open>The retry ceiling\<close>

text \<open>
  C2. \<open>produceRetry\<close> fails with the max-retries error if and only if
  \<open>maxRetries \<ge> 0\<close> and \<open>RetryCount \<ge> maxRetries\<close>, and then it leaves the store
  untouched. For a task that starts with \<open>RetryCount = 0\<close> and \<open>maxRetries = k \<ge> 0\<close>,
  the failure number \<open>n + 1\<close> (which submits \<open>nth_retry n task\<close>), for \<open>n \<le> k\<close>, raises
  the error exactly when \<open>n = k\<close>: on the \<open>(k+1)\<close>-th failure and not before. With a
  negative \<open>maxRetries\<close> no failure raises it.
\<close>

theorem produceRetry_ceiling:
  "(MaxRetriesExceeded (fst (produceRetry c t ev task w))
      \<longleftrightarrow> 0 \<le> sint (maxRetries t) \<and> sint (maxRetries t) \<le> sint (RetryCount task))
   \<and> (0 \<le> sint (maxRetries t) \<and> sint (maxRetries t) \<le> sint (RetryCount task)
        \<longrightarrow> snd (produceRetry c t ev task w) = w)
   \<and> (RetryCount task = 0 \<and> 0 \<le> sint (maxRetries t) \<and> int n \<le> sint (maxRetries t)
        \<longrightarrow> (MaxRetriesExceeded (fst (produceRetry c t ev (nth_retry n task) w))
               \<longleftrightarrow> int n = sint (maxRetries t)))
   \<and> (sint (maxRetries t) < 0
        \<longrightarrow> \<not> MaxRetriesExceeded (fst (produceRetry c t ev (nth_retry n task) w)))"
proof (intro conjI impI)
  show "MaxRetriesExceeded (fst (produceRetry c t ev task w))
      \<longleftrightarrow> 0 \<le> sint (maxRetries t) \<and> sint (maxRetries t) \<le> sint (RetryCount task)"
    by (rule produceRetry_max_iff)
next
  assume "0 \<le> sint (maxRetries t) \<and> sint (maxRetries t) \<le> sint (RetryCount task)"
  then show "snd (produceRetry c t ev task w) = w"
    by (simp add: produceRetry_def)
next
  assume a: "RetryCount task = 0 \<and> 0 \<le> sint (maxRetries t) \<and> int n \<le> sint (maxRetries t)"
  then have "int n < 2 ^ 63"
    using sint_less_64[of "maxRetries t"] by linarith
  then have "n < 2 ^ 63"
    by (metis of_nat_less_iff of_nat_numeral of_nat_power)
  then have "sint (RetryCount (nth_retry n task)) = int n"
    using a by (simp add: RetryCount_nth_retry sint_of_nat_64)
  then show "MaxRetriesExceeded (fst (produceRetry c t ev (nth_retry n task) w))
               \<longleftrightarrow> int n = sint (maxRetries t)"
    using a by (auto simp: produceRetry_max_iff)
next
  assume "sint (maxRetries t) < 0"
  then show "\<not> MaxRetriesExceeded (fst (produceRetry c t ev (nth_retry n task) w))"
    by (simp add: produceRetry_max_iff)
qed

theorem produceRetry_ceiling_witness:
  "RetryCount \<lparr>ID = 7 :: uuid, Payload = (), RetryCount = 0, Wait = 0\<rparr> = 0
   \<and> 0 \<le> sint (maxRetries (example_queue 2))
   \<and> sint (maxRetries (example_queue 2)) \<le> sint (RetryCount (nth_retry 2 \<lparr>ID = 7 :: uuid, Payload = (), RetryCount = 0, Wait = 0\<rparr>))
   \<and> int 1 \<le> sint (maxRetries (example_queue 2))
   \<and> int 2 \<le> sint (maxRetries (example_queue 2))
   \<and> \<not> MaxRetriesExceeded (fst (produceRetry
           \<lparr>json_Marshal = (\<lambda>t. Inr ''task''), json_Unmarshal = (\<lambda>b. Inl ''unused'')\<rparr>
           (example_queue 2) example_env
           (nth_retry 1 \<lparr>ID = 7, Payload = (), RetryCount = 0, Wait = 0\<rparr>) empty_world))
   \<and> MaxRetriesExceeded (fst (produceRetry
           \<lparr>json_Marshal = (\<lambda>t. Inr ''task''), json_Unmarshal = (\<lambda>b. Inl ''unused'')\<rparr>
           (example_queue 2) example_env
           (nth_retry 2 \<lparr>ID = 7, Payload = (), RetryCount = 0, Wait = 0\<rparr>) empty_world))
   \<and> snd (produceRetry
           \<lparr>json_Marshal = (\<lambda>t. Inr ''task''), json_Unmarshal = (\<lambda>b. Inl ''unused'')\<rparr>
           (example_queue 2) example_env
           (nth_retry 2 \<lparr>ID = 7, Payload = (), RetryCount = 0, Wait = 0\<rparr>) empty_world) = empty_world
   \<and> sint (maxRetries (example_queue (- 1))) < 0
   \<and> \<not> MaxRetriesExceeded (fst (produceRetry
           \<lparr>json_Marshal = (\<lambda>t. Inr ''task''), json_Unmarshal = (\<lambda>b. Inl ''unused'')\<rparr>
           (example_queue (- 1)) example_env
           (nth_retry 5 \<lparr>ID = 7, Payload = (), RetryCount = 0, Wait = 0\<rparr>) empty_world))"
  using
    produceRetry_ceiling [of "\<lparr>json_Marshal = (\<lambda>t. Inr ''task''), json_Unmarshal = (\<lambda>b. Inl ''unused'')\<rparr>"
      "example_queue 2" example_env "\<lparr>ID = 7, Payload = (), RetryCount = 0, Wait = 0\<rparr>" empty_world 1]
    produceRetry_ceiling [of "\<lparr>json_Marshal = (\<lambda>t. Inr ''task''), json_Unmarshal = (\<lambda>b. Inl ''unused'')\<rparr>"
      "example_queue 2" example_env "\<lparr>ID = 7, Payload = (), RetryCount = 0, Wait = 0\<rparr>" empty_world 2]
    produceRetry_ceiling [of "\<lparr>json_Marshal = (\<lambda>t. Inr ''task''), json_Unmarshal = (\<lambda>b. Inl ''unused'')\<rparr>"
      "example_queue 2" example_env "nth_retry 2 \<lparr>ID = 7, Payload = (), RetryCount = 0, Wait = 0\<rparr>" empty_world 0]
    produceRetry_ceiling [of "\<lparr>json_Marshal = (\<lambda>t. Inr ''task''), json_Unmarshal = (\<lambda>b. Inl ''unused'')\<rparr>"
      "example_queue (- 1)" example_env "\<lparr>ID = 7, Payload = (), RetryCount = 0, Wait = 0\<rparr>" empty_world 5]
  by (simp add: example_queue_def numeral_2_eq_2 retry_task_def)

subsection \<open>Auxiliary facts on the rescheduled task\<close>

lemma produceRetry_stores:
  assumes "produceRetry c t ev task w = (None, w')"
  shows "\<exists>data z. json_Marshal c (retry_task task) = Inr data
           \<and> store w' (taskQueueKey t) = Some (ZSet z)
           \<and> (data, float64_of_int (Unix (Add (now_retry ev) (retry_wait task)))) \<in> set z"
proof -
  from produceRetry_None(2)[OF assms] produceAt_None
  obtain data where d: "json_Marshal c (retry_task task) = Inr data"
    and z: "redis_ZAdd None (store w) (taskQueueKey t) (float64_of_int (Unix (Add (now_retry ev) (retry_wait task)))) data
              = (None, store w')"
    by blast
  from redis_ZAdd_None[OF z] d show ?thesis by blast
qed

lemma pow2_le_32: "n \<le> 32 \<Longrightarrow> (2::int) ^ n \<le> 4294967296"
  using power_increasing[of n 32 "2::int"] by simp

lemma Wait_nth_retry_fresh:
  assumes "Wait task = 0"
  shows "n \<le> 33 \<Longrightarrow> sint (Wait (nth_retry (Suc n) task)) = 1000000000 * 2 ^ n"
proof (induction n)
  case 0
  then show ?case using assms by (simp add: retry_task_def retry_wait_def sint_Second)
next
  case (Suc n)
  then have ih: "sint (Wait (nth_retry (Suc n) task)) = 1000000000 * 2 ^ n" and n: "n \<le> 32"
    by simp_all
  have pos: "0 < sint (Wait (nth_retry (Suc n) task))"
    using ih by simp
  have "(1000000000::int) * 2 ^ n \<le> 1000000000 * 4294967296"
    using pow2_le_32[OF n] by simp
  then have small: "sint (Wait (nth_retry (Suc n) task)) < 2 ^ 62"
    using ih by simp
  have "Wait (nth_retry (Suc (Suc n)) task) = 2 * Wait (nth_retry (Suc n) task)"
    using pos by (simp add: retry_task_def retry_wait_def)
  then show ?case
    using sint_double[OF pos small] ih by simp
qed

lemma retry_wait_mono:
  assumes "sint (Wait task) < 2 ^ 62"
  shows "sint (Wait task) \<le> sint (retry_wait task)"
proof (cases "0 < sint (Wait task)")
  case True
  then show ?thesis using sint_double[OF True assms] by (simp add: retry_wait_def)
next
  case False
  then show ?thesis by (simp add: retry_wait_def sint_Second)
qed

lemma sint_succ:
  assumes "sint (x :: 64 word) < 2 ^ 63 - 1"
  shows "sint (x + 1) = sint x + 1"
proof -
  have "sint (x + 1) = signed_take_bit 63 (sint x + 1)"
    by (simp add: sint_word_ariths)
  also have "\<dots> = sint x + 1"
    using assms sint_ge[of x] by (intro signed_take_bit_int_eq_self) auto
  finally show ?thesis .
qed

subsection \<open>What a reschedule keeps and what it increases\<close>

text \<open>
  C6 (as the code has it). A reschedule accepted by the store puts into the Schedule a
  task with the same id and payload and with \<open>RetryCount + 1\<close> in 64-bit arithmetic:
  an increase by exactly one unless \<open>RetryCount\<close> is already the largest \<open>int\<close>. Its
  wait is not below the previous wait whenever the previous wait is below \<open>2^62\<close>
  nanoseconds. Along the life of a task created with \<open>RetryCount = 0\<close> and \<open>Wait = 0\<close>,
  through its first 34 reschedules the id and payload stay the same, \<open>RetryCount\<close> grows
  by one and \<open>Wait\<close> does not decrease.
\<close>

theorem produceRetry_monotone:
  "(produceRetry c t ev task w = (None, w') \<longrightarrow>
      (\<exists>r data z.
          json_Marshal c r = Inr data
        \<and> store w' (taskQueueKey t) = Some (ZSet z)
        \<and> (data, float64_of_int (Unix (now_retry ev + sint (Wait r)))) \<in> set z
        \<and> ID r = ID task \<and> Payload r = Payload task
        \<and> RetryCount r = RetryCount task + 1
        \<and> (sint (RetryCount task) < 2 ^ 63 - 1 \<longrightarrow> sint (RetryCount r) = sint (RetryCount task) + 1)
        \<and> (sint (Wait task) < 2 ^ 62 \<longrightarrow> sint (Wait task) \<le> sint (Wait r))))
   \<and> (RetryCount task = 0 \<and> Wait task = 0 \<and> n < 34 \<longrightarrow>
          ID (nth_retry (Suc n) task) = ID task
        \<and> Payload (nth_retry (Suc n) task) = Payload task
        \<and> sint (RetryCount (nth_retry (Suc n) task)) = sint (RetryCount (nth_retry n task)) + 1
        \<and> sint (Wait (nth_retry n task)) \<le> sint (Wait (nth_retry (Suc n) task)))"
proof (intro conjI impI)
  assume ok: "produceRetry c t ev task w = (None, w')"
  obtain data z where s: "json_Marshal c (retry_task task) = Inr data"
      "store w' (taskQueueKey t) = Some (ZSet z)"
      "(data, float64_of_int (Unix (Add (now_retry ev) (retry_wait task)))) \<in> set z"
    using produceRetry_stores[OF ok] by blast
  let ?r = "retry_task task"
  have 1: "(data, float64_of_int (Unix (now_retry ev + sint (Wait ?r)))) \<in> set z"
    using s(3) by (simp add: Add_def retry_task_def)
  have 2: "ID ?r = ID task \<and> Payload ?r = Payload task \<and> RetryCount ?r = RetryCount task + 1"
    by (simp add: retry_task_def)
  have 3: "sint (RetryCount task) < 2 ^ 63 - 1 \<longrightarrow> sint (RetryCount ?r) = sint (RetryCount task) + 1"
    using sint_succ[of "RetryCount task"] by (simp add: retry_task_def)
  have 4: "sint (Wait task) < 2 ^ 62 \<longrightarrow> sint (Wait task) \<le> sint (Wait ?r)"
    using retry_wait_mono[of task] by (simp add: retry_task_def)
  show "\<exists>r data z.
          json_Marshal c r = Inr data
        \<and> store w' (taskQueueKey t) = Some (ZSet z)
        \<and> (data, float64_of_int (Unix (now_retry ev + sint (Wait r)))) \<in> set z
        \<and> ID r = ID task \<and> Payload r = Payload task
        \<and> RetryCount r = RetryCount task + 1
        \<and> (sint (RetryCount task) < 2 ^ 63 - 1 \<longrightarrow> sint (RetryCount r) = sint (RetryCount task) + 1)
        \<and> (sint (Wait task) < 2 ^ 62 \<longrightarrow> sint (Wait task) \<le> sint (Wait r))"
    using s(1,2) 1 2 3 4 by blast
next
  assume a: "RetryCount task = 0 \<and> Wait task = 0 \<and> n < 34"
  show "ID (nth_retry (Suc n) task) = ID task"
    by (rule ID_nth_retry)
  show "Payload (nth_retry (Suc n) task) = Payload task"
    by (rule Payload_nth_retry)
  have "sint (RetryCount (nth_retry n task)) = int n"
    using a by (simp add: RetryCount_nth_retry sint_of_nat_64)
  then have "sint (RetryCount (nth_retry n task)) < 2 ^ 63 - 1"
    using a by simp
  then show "sint (RetryCount (nth_retry (Suc n) task)) = sint (RetryCount (nth_retry n task)) + 1"
    using sint_succ[of "RetryCount (nth_retry n task)"] by (simp add: retry_task_def)
  have "sint (Wait (nth_retry n task)) < 2 ^ 62"
  proof (cases n)
    case 0
    then show ?thesis using a by simp
  next
    case (Suc m)
    then have m: "m \<le> 32" using a by simp
    have "sint (Wait (nth_retry (Suc m) task)) = 1000000000 * 2 ^ m"
      using Wait_nth_retry_fresh[of task m] a m by simp
    moreover have "(1000000000::int) * 2 ^ m \<le> 1000000000 * 4294967296"
      using pow2_le_32[OF m] by simp
    ultimately show ?thesis using Suc by simp
  qed
  then show "sint (Wait (nth_retry n task)) \<le> sint (Wait (nth_retry (Suc n) task))"
    using retry_wait_mono[of "nth_retry n task"] by (simp add: retry_task_def)
qed

theorem produceRetry_monotone_witness:
  "produceRetry \<lparr>json_Marshal = (\<lambda>t. Inr ''task''), json_Unmarshal = (\<lambda>b. Inl ''unused'')\<rparr>
        (example_queue (- 1)) example_env \<lparr>ID = 7, Payload = (), RetryCount = 0, Wait = 0\<rparr> empty_world
      = (None, \<lparr>store = [''taskqueue:simple:tasks:dummy-consumer'' \<mapsto> ZSet [(''task'', 6)]],
                logs = [], calls = []\<rparr>)
   \<and> sint (RetryCount \<lparr>ID = 7 :: uuid, Payload = (), RetryCount = 0, Wait = 0\<rparr>) < 2 ^ 63 - 1
   \<and> sint (Wait \<lparr>ID = 7 :: uuid, Payload = (), RetryCount = 0, Wait = 0\<rparr>) < 2 ^ 62
   \<and> (3 :: nat) < 34
   \<and> (\<exists>r :: unit Task. ID r = (7 :: uuid) \<and> Payload r = () \<and> sint (RetryCount r) = 1 \<and> 0 \<le> sint (Wait r))
   \<and> sint (RetryCount (nth_retry (Suc 3) \<lparr>ID = 7 :: uuid, Payload = (), RetryCount = 0, Wait = 0\<rparr>))
       = sint (RetryCount (nth_retry 3 \<lparr>ID = 7 :: uuid, Payload = (), RetryCount = 0, Wait = 0\<rparr>)) + 1
   \<and> sint (Wait (nth_retry 3 \<lparr>ID = 7 :: uuid, Payload = (), RetryCount = 0, Wait = 0\<rparr>))
       \<le> sint (Wait (nth_retry (Suc 3) \<lparr>ID = 7 :: uuid, Payload = (), RetryCount = 0, Wait = 0\<rparr>))"
proof -
  have h: "produceRetry \<lparr>json_Marshal = (\<lambda>t. Inr ''task''), json_Unmarshal = (\<lambda>b. Inl ''unused'')\<rparr>
        (example_queue (- 1)) example_env \<lparr>ID = 7, Payload = (), RetryCount = 0, Wait = 0\<rparr> empty_world
      = (None, \<lparr>store = [''taskqueue:simple:tasks:dummy-consumer'' \<mapsto> ZSet [(''task'', 6)]],
                logs = [], calls = []\<rparr>)"
    by (simp add: produceRetry_def produceAt_def MarshalBinary_def redis_ZAdd_def example_queue_def
      example_env_def empty_world_def retry_task_def retry_wait_def Add_def Unix_def float64_of_int_exact Second_def)
  note t = produceRetry_monotone [of "\<lparr>json_Marshal = (\<lambda>t. Inr ''task''), json_Unmarshal = (\<lambda>b. Inl ''unused'')\<rparr>"
      "example_queue (- 1)" example_env "\<lparr>ID = 7, Payload = (), RetryCount = 0, Wait = 0\<rparr>" empty_world
      "\<lparr>store = [''taskqueue:simple:tasks:dummy-consumer'' \<mapsto> ZSet [(''task'', 6)]], logs = [], calls = []\<rparr>" 3]
  have a: "\<exists>r :: unit Task. ID r = (7 :: uuid) \<and> Payload r = () \<and> sint (RetryCount r) = 1 \<and> 0 \<le> sint (Wait r)"
  proof -
    from t h obtain r :: "unit Task" where
      "ID r = ID \<lparr>ID = 7 :: uuid, Payload = (), RetryCount = 0 :: go_int, Wait = 0 :: duration\<rparr>"
      "RetryCount r = RetryCount \<lparr>ID = 7 :: uuid, Payload = (), RetryCount = 0 :: go_int, Wait = 0 :: duration\<rparr> + 1"
      "sint (Wait \<lparr>ID = 7 :: uuid, Payload = (), RetryCount = 0 :: go_int, Wait = 0 :: duration\<rparr>) < 2 ^ 62
         \<longrightarrow> sint (Wait \<lparr>ID = 7 :: uuid, Payload = (), RetryCount = 0 :: go_int, Wait = 0 :: duration\<rparr>) \<le> sint (Wait r)"
      by blast
    then have "ID r = 7 \<and> Payload r = () \<and> sint (RetryCount r) = 1 \<and> 0 \<le> sint (Wait r)"
      by simp
    then show ?thesis by blast
  qed
  have b: "sint (RetryCount (nth_retry (Suc 3) \<lparr>ID = 7 :: uuid, Payload = (), RetryCount = 0, Wait = 0\<rparr>))
       = sint (RetryCount (nth_retry 3 \<lparr>ID = 7 :: uuid, Payload = (), RetryCount = 0, Wait = 0\<rparr>)) + 1
   \<and> sint (Wait (nth_retry 3 \<lparr>ID = 7 :: uuid, Payload = (), RetryCount = 0, Wait = 0\<rparr>))
       \<le> sint (Wait (nth_retry (Suc 3) \<lparr>ID = 7 :: uuid, Payload = (), RetryCount = 0, Wait = 0\<rparr>))"
    using t by simp
  show ?thesis using h a b by simp
qed

text \<open>
  C6 as stated fails where 64-bit arithmetic wraps around. After 34 failures in a row a
  task has a wait of \<open>2^33\<close> seconds; its next reschedule doubles it to a negative wait.
  A task whose \<open>RetryCount\<close> is the largest \<open>int\<close> is rescheduled with the smallest.
\<close>

theorem produceRetry_overflow_counterexample:
  "produceRetry
     \<lparr>json_Marshal = (\<lambda>t. Inr (if sint (Wait t) < 0 then ''Wait<0'' else ''Wait>=0'')),
      json_Unmarshal = (\<lambda>b. Inl ''unused'')\<rparr>
     (example_queue (- 1)) example_env
     \<lparr>ID = 7, Payload = (), RetryCount = 34, Wait = 8589934592000000000\<rparr> empty_world
   = (None, \<lparr>store = [''taskqueue:simple:tasks:dummy-consumer'' \<mapsto> ZSet [(''Wait<0'', - 1266874885)]],
             logs = [], calls = []\<rparr>)
   \<and> nth_retry 34 \<lparr>ID = 7, Payload = (), RetryCount = 0, Wait = 0\<rparr>
       = \<lparr>ID = 7, Payload = (), RetryCount = 34, Wait = 8589934592000000000\<rparr>
   \<and> sint (Wait (retry_task \<lparr>ID = 7, Payload = (), RetryCount = 34, Wait = 8589934592000000000\<rparr>))
       = - 1266874889709551616
   \<and> sint (RetryCount (retry_task \<lparr>ID = 7, Payload = (), RetryCount = 9223372036854775807, Wait = 0\<rparr>))
       = - 9223372036854775808"
proof (intro conjI)
  show "produceRetry
     \<lparr>json_Marshal = (\<lambda>t. Inr (if sint (Wait t) < 0 then ''Wait<0'' else ''Wait>=0'')),
      json_Unmarshal = (\<lambda>b. Inl ''unused'')\<rparr>
     (example_queue (- 1)) example_env
     \<lparr>ID = 7, Payload = (), RetryCount = 34, Wait = 8589934592000000000\<rparr> empty_world
   = (None, \<lparr>store = [''taskqueue:simple:tasks:dummy-consumer'' \<mapsto> ZSet [(''Wait<0'', - 1266874885)]],
             logs = [], calls = []\<rparr>)"
    by (simp add: produceRetry_def produceAt_def MarshalBinary_def redis_ZAdd_def example_queue_def
      example_env_def empty_world_def retry_task_def retry_wait_def Add_def Unix_def float64_of_int_exact Second_def)
  show "nth_retry 34 \<lparr>ID = 7 :: uuid, Payload = (), RetryCount = 0, Wait = 0\<rparr>
       = \<lparr>ID = 7, Payload = (), RetryCount = 34, Wait = 8589934592000000000\<rparr>"
    by code_simp
  show "sint (Wait (retry_task \<lparr>ID = 7 :: uuid, Payload = (), RetryCount = 34, Wait = 8589934592000000000\<rparr>))
       = - 1266874889709551616"
    by (simp add: retry_task_def retry_wait_def)
  show "sint (RetryCount (retry_task \<lparr>ID = 7 :: uuid, Payload = (), RetryCount = 9223372036854775807, Wait = 0\<rparr>))
       = - 9223372036854775808"
    by (simp add: retry_task_def)
qed

subsection \<open>Auxiliary facts on one tick\<close>

lemma store_log [simp]: "store (log l msg e w) = store w"
  by (simp add: log_def)

lemma calls_log [simp]: "calls (log l msg e w) = calls w"
  by (simp add: log_def)

lemma logs_log [simp]: "logs (log l msg e w) = logs w @ [Log l msg e]"
  by (simp add: log_def)

lemma produceRetry_at_ceiling:
  "ceiling_reached t task \<Longrightarrow>
     produceRetry c t ev task w = (Some (MaxTaskRetries ErrMaxTaskReties (ID task) (RetryCount task)), w)"
  by (simp add: produceRetry_def ceiling_reached_def)

lemma produceRetry_error_iff:
  "fst (produceRetry c t ev task w) \<noteq> None
     \<longleftrightarrow> ceiling_reached t task \<or> reschedule_fails c t ev task (store w)"
  by (auto simp: produceRetry_def produceAt_def MarshalBinary_def Let_def ceiling_reached_def
      reschedule_fails_def split: sum.splits prod.splits option.splits)

lemma produceRetry_fst_cong:
  "store w = store w' \<Longrightarrow> fst (produceRetry c t ev task w) = fst (produceRetry c t ev task w')"
  by (auto simp: produceRetry_def produceAt_def MarshalBinary_def Let_def
      split: sum.splits prod.splits option.splits)

lemma getTask_calls: "calls (snd (getTask c t ev w)) = calls w"
  by (auto simp: getTask_def Let_def split: sum.splits prod.splits reply.splits)

lemma getTask_store:
  "getTask c t ev w = (Inr task, w1) \<Longrightarrow>
     \<exists>m. consume_script (store w) (taskQueueKey t) (inProgressTaskKey t) (Unix (now_claim ev))
           = (Claimed m, store w1) \<and> json_Unmarshal c m = Inr task \<and> fault_EvalSha ev = None"
  by (auto simp: getTask_def redis_EvalSha_def Let_def
      split: sum.splits prod.splits reply.splits option.splits script_result.splits if_splits)

lemma consume_after_failure:
  assumes "getTask c t ev w = (Inr task, w1)" and "handler (ID task) (Payload task) = Some err"
  shows "fst (consume c t ev handler w) =
          (case fst (produceRetry c t ev task w1) of
             Some retryErr \<Rightarrow> Some (ErrTaskLost (ID task)
                 (Wrapped ''failed to run consume func and failed to enqueue it for retry'' retryErr))
           | None \<Rightarrow> Some (Wrapped ''failed to run consume func'' err))"
proof -
  have "fst (produceRetry c t ev task
           (log Debug ''failed to consume, retrying after backoff'' (Some err)
             (log Debug ''consuming task'' None w1
                \<lparr>calls := calls (log Debug ''consuming task'' None w1) @ [(ID task, Payload task)]\<rparr>)))
        = fst (produceRetry c t ev task w1)"
    by (rule produceRetry_fst_cong) simp
  then show ?thesis
    using assms
    by (auto simp: consume_def run_handler_def Let_def split: prod.splits option.splits)
qed

lemma produceRetry_marshal_fails:
  assumes "\<not> ceiling_reached t task" and "json_Marshal c (retry_task task) = Inl e"
  shows "fst (produceRetry c t ev task w) =
           Some (Wrapped ''failed to produce retry task'' (Wrapped ''failed to zadd message''
             (Wrapped ''failed to marshal *Task'' (JsonError e))))"
  using assms
  by (simp add: produceRetry_def produceAt_def MarshalBinary_def Let_def ceiling_reached_def)

lemma produceRetry_zadd_fails:
  assumes "\<not> ceiling_reached t task" and "json_Marshal c (retry_task task) = Inr data"
    and "fst (redis_ZAdd (fault_ZAdd ev) (store w) (taskQueueKey t)
                (float64_of_int (Unix (Add (now_retry ev) (retry_wait task)))) data) = Some e"
  shows "fst (produceRetry c t ev task w) =
           Some (Wrapped ''failed to produce retry task'' (Wrapped ''failed to zadd message'' e))"
  using assms
  by (auto simp: produceRetry_def produceAt_def MarshalBinary_def Let_def ceiling_reached_def
      split: prod.splits option.splits)

lemma redis_ZAdd_fault:
  "fst (redis_ZAdd (Some e) s k sc m) = Some (RedisError e)"
  by (simp add: redis_ZAdd_def)

lemma getTask_fault_ZAdd: "getTask c t (ev\<lparr>fault_ZAdd := d\<rparr>) w = getTask c t ev w"
  by (simp add: getTask_def)

lemma getTask_json_Marshal: "getTask (c\<lparr>json_Marshal := f\<rparr>) t ev w = getTask c t ev w"
  by (auto simp: getTask_def Let_def split: prod.splits sum.splits reply.splits)

lemma example_getTask:
  "getTask example_codec (example_queue k) example_env one_task_world = (Inr example_task, claimed_world)"
  by (simp add: getTask_def redis_EvalSha_def consume_script_def zset_rem_def StatusOK_def Unix_def float64_of_int_exact
      example_codec_def example_queue_def example_env_def one_task_world_def claimed_world_def log_def)

subsection \<open>When a tick reports a lost task\<close>

text \<open>
  C3 (as the code has it). After a handler failure on a claimed task, \<open>consume\<close> returns
  \<open>ErrTaskLost\<close> with the task's id exactly when \<open>produceRetry\<close> returns an error: when
  the reschedule fails, and also when the retry ceiling is reached. The \<open>ErrTaskLost\<close>
  carries the cause: at the ceiling the max-retries error; when the retry task does not
  serialize the wrapped encoding error; when the store's \<open>ZAdd\<close> fails the wrapped error
  of the store (for a fault \<open>e\<close> of the call, \<open>RedisError e\<close>). When neither holds the
  result is the handler's error, wrapped.
\<close>

theorem consume_task_lost:
  assumes "getTask c t ev w = (Inr task, w1)" and "handler (ID task) (Payload task) = Some err"
  shows "(is_TaskLost (fst (consume c t ev handler w)) (ID task)
            \<longleftrightarrow> ceiling_reached t task \<or> reschedule_fails c t ev task (store w1))
       \<and> (ceiling_reached t task \<longrightarrow>
            fst (consume c t ev handler w) =
              Some (ErrTaskLost (ID task)
                (Wrapped ''failed to run consume func and failed to enqueue it for retry''
                  (MaxTaskRetries ErrMaxTaskReties (ID task) (RetryCount task)))))
       \<and> (\<not> ceiling_reached t task \<and> json_Marshal c (retry_task task) = Inl e1 \<longrightarrow>
            fst (consume c t ev handler w) =
              Some (ErrTaskLost (ID task)
                (Wrapped ''failed to run consume func and failed to enqueue it for retry''
                  (Wrapped ''failed to produce retry task'' (Wrapped ''failed to zadd message''
                    (Wrapped ''failed to marshal *Task'' (JsonError e1)))))))
       \<and> (\<not> ceiling_reached t task \<and> json_Marshal c (retry_task task) = Inr data
            \<and> fst (redis_ZAdd (fault_ZAdd ev) (store w1) (taskQueueKey t)
                      (float64_of_int (Unix (Add (now_retry ev) (retry_wait task)))) data) = Some e2 \<longrightarrow>
            fst (consume c t ev handler w) =
              Some (ErrTaskLost (ID task)
                (Wrapped ''failed to run consume func and failed to enqueue it for retry''
                  (Wrapped ''failed to produce retry task'' (Wrapped ''failed to zadd message'' e2)))))
       \<and> (\<not> ceiling_reached t task \<and> json_Marshal c (retry_task task) = Inr data
            \<and> fault_ZAdd ev = Some e3 \<longrightarrow>
            fst (consume c t ev handler w) =
              Some (ErrTaskLost (ID task)
                (Wrapped ''failed to run consume func and failed to enqueue it for retry''
                  (Wrapped ''failed to produce retry task'' (Wrapped ''failed to zadd message''
                    (RedisError e3))))))
       \<and> (\<not> ceiling_reached t task \<and> \<not> reschedule_fails c t ev task (store w1) \<longrightarrow>
            fst (consume c t ev handler w) = Some (Wrapped ''failed to run consume func'' err))"
proof -
  note r = consume_after_failure[where handler = handler, OF assms]
  have 1: "is_TaskLost (fst (consume c t ev handler w)) (ID task)
            \<longleftrightarrow> ceiling_reached t task \<or> reschedule_fails c t ev task (store w1)"
    using produceRetry_error_iff[of c t ev task w1]
    by (cases "fst (produceRetry c t ev task w1)") (simp_all add: r is_TaskLost_def)
  have 2: "ceiling_reached t task \<longrightarrow>
            fst (consume c t ev handler w) =
              Some (ErrTaskLost (ID task)
                (Wrapped ''failed to run consume func and failed to enqueue it for retry''
                  (MaxTaskRetries ErrMaxTaskReties (ID task) (RetryCount task))))"
    by (simp add: r produceRetry_at_ceiling)
  have 3: "\<not> ceiling_reached t task \<and> json_Marshal c (retry_task task) = Inl e1 \<longrightarrow>
            fst (consume c t ev handler w) =
              Some (ErrTaskLost (ID task)
                (Wrapped ''failed to run consume func and failed to enqueue it for retry''
                  (Wrapped ''failed to produce retry task'' (Wrapped ''failed to zadd message''
                    (Wrapped ''failed to marshal *Task'' (JsonError e1))))))"
    by (simp add: r produceRetry_marshal_fails)
  have 4: "\<not> ceiling_reached t task \<and> json_Marshal c (retry_task task) = Inr data
            \<and> fst (redis_ZAdd (fault_ZAdd ev) (store w1) (taskQueueKey t)
                      (float64_of_int (Unix (Add (now_retry ev) (retry_wait task)))) data) = Some e2 \<longrightarrow>
            fst (consume c t ev handler w) =
              Some (ErrTaskLost (ID task)
                (Wrapped ''failed to run consume func and failed to enqueue it for retry''
                  (Wrapped ''failed to produce retry task'' (Wrapped ''failed to zadd message'' e2))))"
    by (simp add: r produceRetry_zadd_fails)
  have 5: "\<not> ceiling_reached t task \<and> json_Marshal c (retry_task task) = Inr data
            \<and> fault_ZAdd ev = Some e3 \<longrightarrow>
            fst (consume c t ev handler w) =
              Some (ErrTaskLost (ID task)
                (Wrapped ''failed to run consume func and failed to enqueue it for retry''
                  (Wrapped ''failed to produce retry task'' (Wrapped ''failed to zadd message''
                    (RedisError e3)))))"
    by (simp add: r produceRetry_zadd_fails redis_ZAdd_fault)
  have 6: "\<not> ceiling_reached t task \<and> \<not> reschedule_fails c t ev task (store w1) \<longrightarrow>
            fst (consume c t ev handler w) = Some (Wrapped ''failed to run consume func'' err)"
    using produceRetry_error_iff[of c t ev task w1]
    by (cases "fst (produceRetry c t ev task w1)") (simp_all add: r)
  from 1 2 3 4 5 6 show ?thesis by blast
qed

theorem consume_task_lost_witness:
  "getTask example_codec (example_queue (- 1)) example_env one_task_world = (Inr example_task, claimed_world)
   \<and> failing_handler (ID example_task) (Payload example_task) = Some (HandlerError ''boom'')
   \<and> \<not> ceiling_reached (example_queue (- 1)) example_task
   \<and> \<not> reschedule_fails example_codec (example_queue (- 1)) example_env example_task (store claimed_world)
   \<and> \<not> is_TaskLost (fst (consume example_codec (example_queue (- 1)) example_env failing_handler one_task_world))
         (ID example_task)
   \<and> fst (consume example_codec (example_queue (- 1)) example_env failing_handler one_task_world)
       = Some (Wrapped ''failed to run consume func'' (HandlerError ''boom''))
   \<and> ceiling_reached (example_queue 0) example_task
   \<and> is_TaskLost (fst (consume example_codec (example_queue 0) example_env failing_handler one_task_world))
         (ID example_task)
   \<and> getTask example_codec (example_queue (- 1)) (example_env\<lparr>fault_ZAdd := Some ''timeout''\<rparr>)
        one_task_world = (Inr example_task, claimed_world)
   \<and> json_Marshal example_codec (retry_task example_task) = Inr ''task-other''
   \<and> fault_ZAdd (example_env\<lparr>fault_ZAdd := Some ''timeout''\<rparr>) = Some ''timeout''
   \<and> fst (redis_ZAdd (fault_ZAdd (example_env\<lparr>fault_ZAdd := Some ''timeout''\<rparr>)) (store claimed_world)
             (taskQueueKey (example_queue (- 1)))
             (float64_of_int (Unix (Add (now_retry (example_env\<lparr>fault_ZAdd := Some ''timeout''\<rparr>))
                (retry_wait example_task)))) ''task-other'') = Some (RedisError ''timeout'')
   \<and> fst (consume example_codec (example_queue (- 1)) (example_env\<lparr>fault_ZAdd := Some ''timeout''\<rparr>)
            failing_handler one_task_world)
       = Some (ErrTaskLost 7
           (Wrapped ''failed to run consume func and failed to enqueue it for retry''
             (Wrapped ''failed to produce retry task'' (Wrapped ''failed to zadd message''
               (RedisError ''timeout'')))))
   \<and> getTask (example_codec\<lparr>json_Marshal := (\<lambda>t. Inl ''unsupported type'')\<rparr>) (example_queue (- 1))
        example_env one_task_world = (Inr example_task, claimed_world)
   \<and> json_Marshal (example_codec\<lparr>json_Marshal := (\<lambda>t. Inl ''unsupported type'')\<rparr>)
        (retry_task example_task) = Inl ''unsupported type''
   \<and> fst (consume (example_codec\<lparr>json_Marshal := (\<lambda>t. Inl ''unsupported type'')\<rparr>)
            (example_queue (- 1)) example_env failing_handler one_task_world)
       = Some (ErrTaskLost 7
           (Wrapped ''failed to run consume func and failed to enqueue it for retry''
             (Wrapped ''failed to produce retry task'' (Wrapped ''failed to zadd message''
               (Wrapped ''failed to marshal *Task'' (JsonError ''unsupported type''))))))"
proof -
  have h2: "failing_handler (ID example_task) (Payload example_task) = Some (HandlerError ''boom'')"
    by (simp add: failing_handler_def)
  have h3: "\<not> ceiling_reached (example_queue (- 1)) example_task"
    by (simp add: ceiling_reached_def example_queue_def)
  have h4: "\<not> reschedule_fails example_codec (example_queue (- 1)) example_env example_task (store claimed_world)"
    by (simp add: reschedule_fails_def example_codec_def example_queue_def example_env_def
        claimed_world_def redis_ZAdd_def)
  have h5: "ceiling_reached (example_queue 0) example_task"
    by (simp add: ceiling_reached_def example_queue_def example_task_def)
  have g3: "getTask example_codec (example_queue (- 1)) (example_env\<lparr>fault_ZAdd := Some ''timeout''\<rparr>)
        one_task_world = (Inr example_task, claimed_world)"
    by (simp add: getTask_fault_ZAdd example_getTask)
  have g4: "getTask (example_codec\<lparr>json_Marshal := (\<lambda>t. Inl ''unsupported type'')\<rparr>) (example_queue (- 1))
        example_env one_task_world = (Inr example_task, claimed_world)"
    by (simp add: getTask_json_Marshal example_getTask)
  have m1: "json_Marshal example_codec (retry_task example_task) = Inr ''task-other''"
    by (simp add: example_codec_def example_task_def retry_task_def)
  have m2: "json_Marshal (example_codec\<lparr>json_Marshal := (\<lambda>t. Inl ''unsupported type'')\<rparr>)
        (retry_task example_task) = Inl ''unsupported type''"
    by simp
  have i: "ID example_task = 7"
    by (simp add: example_task_def)
  note a = consume_task_lost [where handler = failing_handler, OF example_getTask [of "- 1"] h2]
  note b = consume_task_lost [where handler = failing_handler, OF example_getTask [of 0] h2]
  note c = consume_task_lost [where handler = failing_handler and data = "''task-other''"
      and ?e2.0 = "RedisError ''timeout''" and ?e3.0 = "''timeout''", OF g3 h2]
  note d = consume_task_lost [where handler = failing_handler and ?e1.0 = "''unsupported type''", OF g4 h2]
  have 1: "\<not> is_TaskLost (fst (consume example_codec (example_queue (- 1)) example_env failing_handler one_task_world))
         (ID example_task)
   \<and> fst (consume example_codec (example_queue (- 1)) example_env failing_handler one_task_world)
       = Some (Wrapped ''failed to run consume func'' (HandlerError ''boom''))"
    using a h3 h4 by blast
  have 2: "is_TaskLost (fst (consume example_codec (example_queue 0) example_env failing_handler one_task_world))
         (ID example_task)"
    using b h5 by blast
  have 3: "fst (consume example_codec (example_queue (- 1)) (example_env\<lparr>fault_ZAdd := Some ''timeout''\<rparr>)
            failing_handler one_task_world)
       = Some (ErrTaskLost 7
           (Wrapped ''failed to run consume func and failed to enqueue it for retry''
             (Wrapped ''failed to produce retry task'' (Wrapped ''failed to zadd message''
               (RedisError ''timeout'')))))"
    using c h3 m1 i by simp
  have 4: "fst (consume (example_codec\<lparr>json_Marshal := (\<lambda>t. Inl ''unsupported type'')\<rparr>)
            (example_queue (- 1)) example_env failing_handler one_task_world)
       = Some (ErrTaskLost 7
           (Wrapped ''failed to run consume func and failed to enqueue it for retry''
             (Wrapped ''failed to produce retry task'' (Wrapped ''failed to zadd message''
               (Wrapped ''failed to marshal *Task'' (JsonError ''unsupported type''))))))"
    using d h3 m2 i by simp
  show ?thesis
    using example_getTask [of "- 1"] h2 h3 h4 h5 g3 g4 m1 m2 1 2 3 4
    by (simp add: redis_ZAdd_fault is_TaskLost_def)
qed

text \<open>
  C3 as stated fails at the retry ceiling: with \<open>maxRetries = 0\<close> the first failure of a
  task is returned as \<open>ErrTaskLost\<close> although no store call failed (none was made for
  the reschedule).
\<close>

theorem consume_ceiling_counterexample:
  "fst (consume example_codec (example_queue 0) example_env failing_handler one_task_world)
     = Some (ErrTaskLost 7
         (Wrapped ''failed to run consume func and failed to enqueue it for retry''
            (MaxTaskRetries ErrMaxTaskReties 7 0)))
   \<and> fault_ZAdd example_env = None
   \<and> store (snd (consume example_codec (example_queue 0) example_env failing_handler one_task_world))
        ''taskqueue:simple:tasks:dummy-consumer'' = Some (ZSet [])"
  using example_getTask [of 0]
  by (simp add: consume_def run_handler_def failing_handler_def produceRetry_def
      removeInProgressTask_def redis_Del_def example_task_def example_queue_def example_env_def
      claimed_world_def log_def)

subsection \<open>Auxiliary facts on the in-progress marker\<close>

lemma getTask_fault_Del: "getTask c t (ev\<lparr>fault_Del := d\<rparr>) w = getTask c t ev w"
  by (simp add: getTask_def)

lemma produceRetry_fault_Del: "produceRetry c t (ev\<lparr>fault_Del := d\<rparr>) task w = produceRetry c t ev task w"
  by (simp add: produceRetry_def)

lemma removeInProgressTask_store:
  "fault_Del ev = None \<Longrightarrow> store (removeInProgressTask t ev task w) (inProgressTaskKey t) = None"
  by (simp add: removeInProgressTask_def redis_Del_def)

lemma removeInProgressTask_warns:
  "fault_Del ev = Some e \<Longrightarrow>
     removeInProgressTask t ev task w =
       log Warn ''failed to delete worker in progress task, might duplicate if worker restart now''
         (Some (RedisError e)) w"
  by (simp add: removeInProgressTask_def redis_Del_def)

lemma produceRetry_calls: "calls (snd (produceRetry c t ev task w)) = calls w"
  by (auto simp: produceRetry_def produceAt_def Let_def split: sum.splits prod.splits option.splits)

lemma consume_claimed:
  assumes "getTask c t ev w = (Inr task, w1)"
  shows "\<exists>w'. snd (consume c t ev handler w) = removeInProgressTask t ev task w'
            \<and> calls w' = calls w1 @ [(ID task, Payload task)]"
proof (cases "handler (ID task) (Payload task)")
  case None
  let ?w3 = "log Debug ''successfully consumed task'' None
               ((log Debug ''consuming task'' None w1)
                  \<lparr>calls := calls w1 @ [(ID task, Payload task)]\<rparr>)"
  have "snd (consume c t ev handler w) = removeInProgressTask t ev task ?w3"
    using assms None by (simp add: consume_def run_handler_def)
  moreover have "calls ?w3 = calls w1 @ [(ID task, Payload task)]"
    by simp
  ultimately show ?thesis by blast
next
  case (Some err)
  let ?w4 = "log Debug ''failed to consume, retrying after backoff'' (Some err)
               ((log Debug ''consuming task'' None w1)
                  \<lparr>calls := calls w1 @ [(ID task, Payload task)]\<rparr>)"
  have c: "calls (snd (produceRetry c t ev task ?w4)) = calls w1 @ [(ID task, Payload task)]"
    by (simp add: produceRetry_calls)
  have "snd (consume c t ev handler w)
          = removeInProgressTask t ev task (snd (produceRetry c t ev task ?w4))"
    using assms Some
    by (auto simp: consume_def run_handler_def Let_def split: prod.splits option.splits)
  with c show ?thesis by blast
qed

lemma consume_fst_fault_Del:
  "fst (consume c t (ev\<lparr>fault_Del := d\<rparr>) handler w) = fst (consume c t ev handler w)"
  by (auto simp: consume_def getTask_fault_Del produceRetry_fault_Del Let_def
      split: prod.splits option.splits sum.splits)

subsection \<open>The in-progress marker after the handler\<close>

text \<open>
  C9. When a task has been claimed and decoded, the handler is invoked on it and, whatever
  the handler and the reschedule return, the last thing \<open>consume\<close> does is
  \<open>removeInProgressTask\<close>, on a world in which the handler invocation is already
  recorded. If the delete goes through, the worker's marker is absent afterwards; if the
  delete fails, a warning carrying the error is the last log line. The result of
  \<open>consume\<close> is the same whether the delete fails or not.
\<close>

theorem consume_clears_marker:
  assumes "getTask c t ev w = (Inr task, w1)"
  shows "(\<exists>w'. snd (consume c t ev handler w) = removeInProgressTask t ev task w'
               \<and> calls w' = calls w @ [(ID task, Payload task)])
       \<and> (fault_Del ev = None \<longrightarrow>
             store (snd (consume c t ev handler w)) (inProgressTaskKey t) = None)
       \<and> (\<forall>e. fault_Del ev = Some e \<longrightarrow>
             last (logs (snd (consume c t ev handler w))) =
               Log Warn ''failed to delete worker in progress task, might duplicate if worker restart now''
                 (Some (RedisError e)))
       \<and> fst (consume c t (ev\<lparr>fault_Del := d\<rparr>) handler w) = fst (consume c t ev handler w)"
proof -
  have cw: "calls w1 = calls w"
    using getTask_calls[of c t ev w] assms by simp
  obtain w' where w': "snd (consume c t ev handler w) = removeInProgressTask t ev task w'"
      "calls w' = calls w @ [(ID task, Payload task)]"
    using consume_claimed[OF assms, of handler] cw by auto
  have 2: "fault_Del ev = None \<longrightarrow> store (snd (consume c t ev handler w)) (inProgressTaskKey t) = None"
    by (simp add: w'(1) removeInProgressTask_store)
  have 3: "\<forall>e. fault_Del ev = Some e \<longrightarrow>
             last (logs (snd (consume c t ev handler w))) =
               Log Warn ''failed to delete worker in progress task, might duplicate if worker restart now''
                 (Some (RedisError e))"
    by (simp add: w'(1) removeInProgressTask_warns)
  from w' 2 3 consume_fst_fault_Del show ?thesis by blast
qed

theorem consume_clears_marker_witness:
  "getTask example_codec (example_queue (- 1)) example_env one_task_world = (Inr example_task, claimed_world)
   \<and> fault_Del example_env = None
   \<and> store (snd (consume example_codec (example_queue (- 1)) example_env failing_handler one_task_world))
        (inProgressTaskKey (example_queue (- 1))) = None
   \<and> getTask example_codec (example_queue (- 1)) (example_env\<lparr>fault_Del := Some ''timeout''\<rparr>) one_task_world
        = (Inr example_task, claimed_world)
   \<and> fault_Del (example_env\<lparr>fault_Del := Some ''timeout''\<rparr>) = Some ''timeout''
   \<and> last (logs (snd (consume example_codec (example_queue (- 1))
                         (example_env\<lparr>fault_Del := Some ''timeout''\<rparr>) failing_handler one_task_world)))
        = Log Warn ''failed to delete worker in progress task, might duplicate if worker restart now''
            (Some (RedisError ''timeout''))
   \<and> fst (consume example_codec (example_queue (- 1))
             (example_env\<lparr>fault_Del := Some ''timeout''\<rparr>) failing_handler one_task_world)
        = fst (consume example_codec (example_queue (- 1)) example_env failing_handler one_task_world)"
proof -
  have g1: "getTask example_codec (example_queue (- 1)) example_env one_task_world
              = (Inr example_task, claimed_world)"
    by (rule example_getTask)
  have g2: "getTask example_codec (example_queue (- 1)) (example_env\<lparr>fault_Del := Some ''timeout''\<rparr>)
              one_task_world = (Inr example_task, claimed_world)"
    by (simp add: getTask_fault_Del example_getTask)
  have f1: "fault_Del example_env = None"
    by (simp add: example_env_def)
  have f2: "fault_Del (example_env\<lparr>fault_Del := Some ''timeout''\<rparr>) = Some ''timeout''"
    by simp
  show ?thesis
    using g1 g2 f1 f2
      consume_clears_marker [OF g1, of failing_handler "Some ''timeout''"]
      consume_clears_marker [OF g2, of failing_handler "Some ''timeout''"]
    by simp
qed

subsection \<open>A claimed entry that does not decode\<close>

text \<open>
  C10 (as the code has it). When the claim script hands out bytes that \<open>json.Unmarshal\<close>
  rejects, the handler is not invoked and the store is left exactly as the script left
  it: the worker's in-progress marker still holds the claimed bytes. If the bytes are not
  those of the "no task" sentinel, \<open>consume\<close> returns the wrapped decoding error; if they
  are, \<open>getTask\<close> takes them for "no task" and \<open>consume\<close> returns no error.
\<close>

theorem consume_corrupt_task:
  assumes "fault_EvalSha ev = None"
    and "consume_script (store w) (taskQueueKey t) (inProgressTaskKey t) (Unix (now_claim ev)) = (Claimed m, s')"
    and "json_Unmarshal c m = Inl e"
  shows "(m \<noteq> StatusOK \<longrightarrow>
            fst (consume c t ev handler w) =
              Some (Wrapped ''failed to get task''
                (Wrapped ''failed to unmarshal task and permanently lost it'' (JsonError e)))
          \<and> logs (snd (consume c t ev handler w)) = logs w @ [Log Debug ''fetching task to execute'' None])
       \<and> (m = StatusOK \<longrightarrow>
            fst (consume c t ev handler w) = None
          \<and> logs (snd (consume c t ev handler w)) =
               logs w @ [Log Debug ''fetching task to execute'' None, Log Debug ''no tasks to execute'' None])
       \<and> calls (snd (consume c t ev handler w)) = calls w
       \<and> store (snd (consume c t ev handler w)) = s'
       \<and> s' (inProgressTaskKey t) = Some (Str m)"
proof -
  have m: "s' (inProgressTaskKey t) = Some (Str m)"
    using assms(2)
    by (auto simp: consume_script_def split: option.splits rvalue.splits prod.splits)
  show ?thesis
  proof (cases "m = StatusOK")
    case True
    have g: "getTask c t ev w =
      (Inl ErrNoTaskToConsume,
       log Debug ''no tasks to execute'' None ((log Debug ''fetching task to execute'' None w)\<lparr>store := s'\<rparr>))"
      using assms True by (simp add: getTask_def redis_EvalSha_def Let_def)
    show ?thesis
      using m True by (simp add: consume_def g)
  next
    case False
    have g: "getTask c t ev w =
      (Inl (Wrapped ''failed to unmarshal task and permanently lost it'' (JsonError e)),
       (log Debug ''fetching task to execute'' None w)\<lparr>store := s'\<rparr>)"
      using assms False by (simp add: getTask_def redis_EvalSha_def Let_def)
    show ?thesis
      using m False by (simp add: consume_def g)
  qed
qed

theorem consume_corrupt_task_witness:
  "fault_EvalSha example_env = None
   \<and> consume_script (store corrupt_world) (taskQueueKey (example_queue (- 1)))
        (inProgressTaskKey (example_queue (- 1))) (Unix (now_claim example_env))
       = (Claimed ''garbage'',
          [''taskqueue:simple:tasks:dummy-consumer'' \<mapsto> ZSet [],
           ''taskqueue:simple:workers:worker1:tasks:dummy-consumer'' \<mapsto> Str ''garbage''])
   \<and> ''garbage'' \<noteq> StatusOK
   \<and> json_Unmarshal example_codec ''garbage'' = Inl ''invalid character''
   \<and> fst (consume example_codec (example_queue (- 1)) example_env failing_handler corrupt_world)
       = Some (Wrapped ''failed to get task''
           (Wrapped ''failed to unmarshal task and permanently lost it'' (JsonError ''invalid character'')))
   \<and> calls (snd (consume example_codec (example_queue (- 1)) example_env failing_handler corrupt_world)) = []
   \<and> store (snd (consume example_codec (example_queue (- 1)) example_env failing_handler corrupt_world))
        ''taskqueue:simple:workers:worker1:tasks:dummy-consumer'' = Some (Str ''garbage'')
   \<and> consume_script (store sentinel_world) (taskQueueKey (example_queue (- 1)))
        (inProgressTaskKey (example_queue (- 1))) (Unix (now_claim example_env))
       = (Claimed ''OK'',
          [''taskqueue:simple:tasks:dummy-consumer'' \<mapsto> ZSet [],
           ''taskqueue:simple:workers:worker1:tasks:dummy-consumer'' \<mapsto> Str ''OK''])
   \<and> ''OK'' = StatusOK
   \<and> json_Unmarshal example_codec ''OK'' = Inl ''invalid character''
   \<and> fst (consume example_codec (example_queue (- 1)) example_env failing_handler sentinel_world) = None
   \<and> calls (snd (consume example_codec (example_queue (- 1)) example_env failing_handler sentinel_world)) = []"
proof -
  have h1: "fault_EvalSha example_env = None"
    by (simp add: example_env_def)
  have h2: "consume_script (store corrupt_world) (taskQueueKey (example_queue (- 1)))
        (inProgressTaskKey (example_queue (- 1))) (Unix (now_claim example_env))
       = (Claimed ''garbage'',
          [''taskqueue:simple:tasks:dummy-consumer'' \<mapsto> ZSet [],
           ''taskqueue:simple:workers:worker1:tasks:dummy-consumer'' \<mapsto> Str ''garbage''])"
    by (simp add: consume_script_def zset_rem_def corrupt_world_def example_queue_def example_env_def
        Unix_def)
  have h3: "''garbage'' \<noteq> StatusOK"
    by (simp add: StatusOK_def)
  have h4: "json_Unmarshal example_codec ''garbage'' = Inl ''invalid character''"
    by (simp add: example_codec_def)
  have k2: "consume_script (store sentinel_world) (taskQueueKey (example_queue (- 1)))
        (inProgressTaskKey (example_queue (- 1))) (Unix (now_claim example_env))
       = (Claimed ''OK'',
          [''taskqueue:simple:tasks:dummy-consumer'' \<mapsto> ZSet [],
           ''taskqueue:simple:workers:worker1:tasks:dummy-consumer'' \<mapsto> Str ''OK''])"
    by (simp add: consume_script_def zset_rem_def sentinel_world_def example_queue_def example_env_def
        Unix_def)
  have k3: "''OK'' = StatusOK"
    by (simp add: StatusOK_def)
  have k4: "json_Unmarshal example_codec ''OK'' = Inl ''invalid character''"
    by (simp add: example_codec_def)
  have a: "fst (consume example_codec (example_queue (- 1)) example_env failing_handler corrupt_world)
       = Some (Wrapped ''failed to get task''
           (Wrapped ''failed to unmarshal task and permanently lost it'' (JsonError ''invalid character'')))
   \<and> calls (snd (consume example_codec (example_queue (- 1)) example_env failing_handler corrupt_world)) = []
   \<and> store (snd (consume example_codec (example_queue (- 1)) example_env failing_handler corrupt_world))
        ''taskqueue:simple:workers:worker1:tasks:dummy-consumer'' = Some (Str ''garbage'')"
    using h3 consume_corrupt_task [OF h1 h2 h4, of failing_handler]
    by (simp add: corrupt_world_def)
  have b: "fst (consume example_codec (example_queue (- 1)) example_env failing_handler sentinel_world) = None
   \<and> calls (snd (consume example_codec (example_queue (- 1)) example_env failing_handler sentinel_world)) = []"
    using k3 consume_corrupt_task [OF h1 k2 k4, of failing_handler]
    by (simp add: sentinel_world_def)
  show ?thesis
    using h1 h2 h3 h4 k2 k3 k4 a b by simp
qed

text \<open>
  C10 as stated fails when the bytes that do not decode are the bytes of the "no task"
  sentinel: \<open>getTask\<close> compares with the sentinel before it decodes, so \<open>consume\<close> returns
  no error. The entry is gone from the Schedule and the marker is set all the same.
\<close>

theorem consume_sentinel_counterexample:
  "consume_script (store sentinel_world) ''taskqueue:simple:tasks:dummy-consumer''
      ''taskqueue:simple:workers:worker1:tasks:dummy-consumer'' 5
     = (Claimed ''OK'',
        [''taskqueue:simple:tasks:dummy-consumer'' \<mapsto> ZSet [],
         ''taskqueue:simple:workers:worker1:tasks:dummy-consumer'' \<mapsto> Str ''OK''])
   \<and> json_Unmarshal example_codec ''OK'' = Inl ''invalid character''
   \<and> fst (consume example_codec (example_queue (- 1)) example_env failing_handler sentinel_world) = None
   \<and> store (snd (consume example_codec (example_queue (- 1)) example_env failing_handler sentinel_world))
        ''taskqueue:simple:workers:worker1:tasks:dummy-consumer'' = Some (Str ''OK'')
   \<and> store (snd (consume example_codec (example_queue (- 1)) example_env failing_handler sentinel_world))
        ''taskqueue:simple:tasks:dummy-consumer'' = Some (ZSet [])"
  by (simp add: consume_def getTask_def redis_EvalSha_def consume_script_def zset_rem_def
      StatusOK_def Unix_def example_codec_def example_queue_def example_env_def sentinel_world_def log_def)

subsection \<open>Auxiliary facts on the producer\<close>

lemma redis_ZAdd_cases:
  "redis_ZAdd fault s k sc m =
     (if fault = None \<and> (\<forall>v. s k \<noteq> Some (Str v))
      then (None, s(k \<mapsto> ZSet ((m, sc) # filter (\<lambda>e. fst e \<noteq> m) (zset_at s k))))
      else (Some (case fault of Some e \<Rightarrow> RedisError e | None \<Rightarrow> RedisError ''WRONGTYPE''), s))"
  by (auto simp: redis_ZAdd_def zset_at_def zset_add_def split: option.splits rvalue.splits)

lemma produceAt_cases:
  "produceAt c t fault task at w =
     (case json_Marshal c task of
        Inl e \<Rightarrow> (Some (Wrapped ''failed to zadd message''
                    (Wrapped ''failed to marshal *Task'' (JsonError e))), w)
      | Inr data \<Rightarrow>
          (if fault = None \<and> (\<forall>v. store w (taskQueueKey t) \<noteq> Some (Str v))
           then (None, w\<lparr>store := (store w)(taskQueueKey t \<mapsto>
                   ZSet ((data, float64_of_int (Unix at)) # filter (\<lambda>e. fst e \<noteq> data) (zset_at (store w) (taskQueueKey t))))\<rparr>)
           else (Some (Wrapped ''failed to zadd message''
                   (case fault of Some e \<Rightarrow> RedisError e | None \<Rightarrow> RedisError ''WRONGTYPE'')), w)))"
  by (simp add: produceAt_def MarshalBinary_def redis_ZAdd_cases split: sum.splits)

subsection \<open>Scheduling a new task\<close>

text \<open>
  C7 (as the code has it). \<open>ProduceAt\<close> builds the task with the id that \<open>uuid.New()\<close>
  returned, \<open>RetryCount = 0\<close> and \<open>Wait = 0\<close>. It succeeds exactly when the task serializes
  and the store's \<open>ZAdd\<close> goes through; then it returns that id, and the Schedule is the
  previous one with the single entry (serialized task, \<open>float64(executeAt.Unix())\<close>) put
  in, every other key of the store untouched; when the serialized task was not in the
  Schedule before (as for an id not used before), the Schedule is the previous one with
  that one entry added. Otherwise it returns \<open>uuid.Nil\<close> with an error and the store is as
  it was. The score equals \<open>executeAt\<close> in Unix seconds whenever these are at most \<open>2^53\<close>
  in absolute value.
\<close>

theorem ProduceAt_schedules:
  "(snd (fst (ProduceAt c t new_id fault payload executeAt w)) = None
      \<longleftrightarrow> (\<exists>data. json_Marshal c \<lparr>ID = new_id, Payload = payload, RetryCount = 0, Wait = 0\<rparr> = Inr data)
          \<and> fault = None \<and> (\<forall>v. store w (taskQueueKey t) \<noteq> Some (Str v)))
   \<and> (snd (fst (ProduceAt c t new_id fault payload executeAt w)) = None \<longrightarrow>
        fst (fst (ProduceAt c t new_id fault payload executeAt w)) = new_id
        \<and> (\<exists>data. json_Marshal c \<lparr>ID = new_id, Payload = payload, RetryCount = 0, Wait = 0\<rparr> = Inr data
              \<and> store (snd (ProduceAt c t new_id fault payload executeAt w)) =
                  (store w)(taskQueueKey t \<mapsto>
                     ZSet ((data, float64_of_int (Unix executeAt)) #
                           filter (\<lambda>e. fst e \<noteq> data) (zset_at (store w) (taskQueueKey t))))
              \<and> (data \<notin> fst ` set (zset_at (store w) (taskQueueKey t)) \<longrightarrow>
                    zset_at (store (snd (ProduceAt c t new_id fault payload executeAt w))) (taskQueueKey t)
                      = (data, float64_of_int (Unix executeAt)) # zset_at (store w) (taskQueueKey t))))
   \<and> (snd (fst (ProduceAt c t new_id fault payload executeAt w)) \<noteq> None \<longrightarrow>
        fst (fst (ProduceAt c t new_id fault payload executeAt w)) = uuid_Nil
        \<and> store (snd (ProduceAt c t new_id fault payload executeAt w)) = store w)
   \<and> (\<bar>Unix executeAt\<bar> \<le> 2 ^ 53 \<longrightarrow> float64_of_int (Unix executeAt) = Unix executeAt)"
proof -
  have f: "\<And>data z. data \<notin> fst ` set z \<Longrightarrow> filter (\<lambda>e. fst e \<noteq> data) z = z"
    by (auto simp: filter_id_conv)
  show ?thesis
    by (cases "json_Marshal c \<lparr>ID = new_id, Payload = payload, RetryCount = 0, Wait = 0\<rparr>")
       (auto simp: ProduceAt_def produceAt_cases Let_def float64_of_int_exact_le f zset_at_def)
qed

theorem ProduceAt_schedules_witness:
  "ProduceAt example_codec (example_queue (- 1)) 7 None () 5000000000 empty_world
     = ((7, None),
        \<lparr>store = [''taskqueue:simple:tasks:dummy-consumer'' \<mapsto> ZSet [(''task0'', 5)]],
         logs = [Log Debug ''producing task'' None], calls = []\<rparr>)
   \<and> snd (fst (ProduceAt example_codec (example_queue (- 1)) 7 (Some ''timeout'') () 5000000000 empty_world))
        \<noteq> None
   \<and> fst (fst (ProduceAt example_codec (example_queue (- 1)) 7 (Some ''timeout'') () 5000000000 empty_world))
        = uuid_Nil
   \<and> store (snd (ProduceAt example_codec (example_queue (- 1)) 7 (Some ''timeout'') () 5000000000 empty_world))
        = store (empty_world :: unit world)
   \<and> ''task0'' \<notin> fst ` set (zset_at (store (empty_world :: unit world)) (taskQueueKey (example_queue (- 1))))
   \<and> \<bar>Unix 5000000000\<bar> \<le> 2 ^ 53
   \<and> float64_of_int (Unix 5000000000) = 5"
proof -
  have h1: "ProduceAt example_codec (example_queue (- 1)) 7 None () 5000000000 empty_world
     = ((7, None),
        \<lparr>store = [''taskqueue:simple:tasks:dummy-consumer'' \<mapsto> ZSet [(''task0'', 5)]],
         logs = [Log Debug ''producing task'' None], calls = []\<rparr>)"
    by (simp add: ProduceAt_def produceAt_def MarshalBinary_def redis_ZAdd_def log_def Unix_def float64_of_int_exact
        example_codec_def example_task_def example_queue_def empty_world_def)
  have h2: "snd (fst (ProduceAt example_codec (example_queue (- 1)) 7 (Some ''timeout'') () 5000000000 empty_world))
        \<noteq> None"
    by (simp add: ProduceAt_def produceAt_def MarshalBinary_def redis_ZAdd_def
        example_codec_def)
  have a: "fst (fst (ProduceAt example_codec (example_queue (- 1)) 7 (Some ''timeout'') () 5000000000 empty_world))
        = uuid_Nil
   \<and> store (snd (ProduceAt example_codec (example_queue (- 1)) 7 (Some ''timeout'') () 5000000000 empty_world))
        = store (empty_world :: unit world)"
    using h2
      ProduceAt_schedules [of example_codec "example_queue (- 1)" 7 "Some ''timeout''" "()" 5000000000 empty_world]
    by simp
  have b: "fst (fst (ProduceAt example_codec (example_queue (- 1)) 7 None () 5000000000 empty_world)) = 7"
    using h1
      ProduceAt_schedules [of example_codec "example_queue (- 1)" 7 None "()" 5000000000 empty_world]
    by simp
  have c: "''task0'' \<notin> fst ` set (zset_at (store (empty_world :: unit world)) (taskQueueKey (example_queue (- 1))))"
    by (simp add: zset_at_def empty_world_def)
  have d: "\<bar>Unix 5000000000\<bar> \<le> 2 ^ 53"
    by (simp add: Unix_def)
  have e: "float64_of_int (Unix 5000000000) = 5"
    using d
      ProduceAt_schedules [of example_codec "example_queue (- 1)" 7 None "()" 5000000000 empty_world]
    by (simp add: Unix_def)
  show ?thesis
    using h1 h2 a b c d e by simp
qed

text \<open>
  C7 as stated fails where the Unix seconds have more than 53 significant bits: for an
  \<open>executeAt\<close> of \<open>2^53 + 1\<close> seconds the score that is stored is \<open>2^53\<close>.
\<close>

theorem ProduceAt_far_future_counterexample:
  "ProduceAt example_codec (example_queue (- 1)) 7 None () 9007199254740993000000000 empty_world
     = ((7, None),
        \<lparr>store = [''taskqueue:simple:tasks:dummy-consumer'' \<mapsto> ZSet [(''task0'', 9007199254740992)]],
         logs = [Log Debug ''producing task'' None], calls = []\<rparr>)
   \<and> Unix 9007199254740993000000000 = 9007199254740993"
  by (simp add: ProduceAt_def produceAt_def MarshalBinary_def redis_ZAdd_def log_def Unix_def
      float64_of_int_def excess_bits_example Let_def
      example_codec_def example_task_def example_queue_def empty_world_def)

subsection \<open>Auxiliary facts on the claim\<close>

lemma lowest_due_none: "due z now = [] \<Longrightarrow> lowest_due z now = None"
  by (induction z) (auto simp: due_def split: if_splits)

lemma lowest_due_single: "due z now = [(m, sc)] \<Longrightarrow> lowest_due z now = Some (m, sc)"
proof (induction z)
  case Nil
  then show ?case by (simp add: due_def)
next
  case (Cons e z)
  obtain m' sc' where e: "e = (m', sc')" by (cases e)
  show ?case
  proof (cases "sc' \<le> now")
    case True
    with Cons.prems e have "(m', sc') = (m, sc)" and "due z now = []"
      by (simp_all add: due_def)
    then show ?thesis
      using True e by (simp add: lowest_due_none)
  next
    case False
    with Cons.prems e have "due z now = [(m, sc)]"
      by (simp add: due_def)
    then show ?thesis
      using Cons.IH False e by simp
  qed
qed

lemma due_zset_rem: "due z now = [(m, sc)] \<Longrightarrow> due (zset_rem z m) now = []"
proof -
  assume a: "due z now = [(m, sc)]"
  have "due (zset_rem z m) now = filter (\<lambda>e. fst e \<noteq> m) (due z now)"
    by (simp add: due_def zset_rem_def conj_commute)
  with a show ?thesis by simp
qed

lemma claim_all_none:
  assumes "s scheduleKey = Some (ZSet z)"
    and "\<forall>(ipk, now) \<in> set invs. due z now = []"
  shows "claim_all s scheduleKey invs = (replicate (length invs) NoTask, s)"
  using assms
  by (induction invs) (auto simp: consume_script_def lowest_due_none)

lemma lowest_due_mem: "lowest_due z now = Some (m, sc) \<Longrightarrow> (m, sc) \<in> set z \<and> sc \<le> now"
  by (induction z arbitrary: m sc) (auto split: option.splits if_splits)

lemma consume_script_cases:
  "consume_script s k ipk now = (r, s') \<Longrightarrow>
     (\<exists>m. r = Claimed m \<and> m \<in> fst ` set (zset_at s k)
          \<and> fst ` set (zset_at s' k) \<subseteq> fst ` set (zset_at s k) - {m})
     \<or> ((r = NoTask \<or> (\<exists>e. r = ScriptFailed e)) \<and> s' = s)"
proof (cases "s k")
  case None
  then show "consume_script s k ipk now = (r, s') \<Longrightarrow> ?thesis"
    by (auto simp: consume_script_def)
next
  case (Some v)
  assume a: "consume_script s k ipk now = (r, s')"
  show ?thesis
  proof (cases v)
    case (Str x)
    then show ?thesis using a Some by (auto simp: consume_script_def)
  next
    case (ZSet z)
    show ?thesis
    proof (cases "lowest_due z now")
      case None
      then show ?thesis using a Some ZSet by (auto simp: consume_script_def)
    next
      case (Some e)
      obtain m sc where e: "e = (m, sc)" by (cases e)
      have mem: "(m, sc) \<in> set z"
        using lowest_due_mem Some e by blast
      have r: "r = Claimed m" and s': "s' = (s(k \<mapsto> ZSet (zset_rem z m)))(ipk \<mapsto> Str m)"
        using a \<open>s k = Some v\<close> ZSet Some e by (auto simp: consume_script_def)
      have "fst ` set (zset_at s' k) \<subseteq> fst ` set z - {m}"
        by (auto simp: s' zset_at_def zset_rem_def)
      moreover have "m \<in> fst ` set (zset_at s k)"
        using mem \<open>s k = Some v\<close> ZSet by (force simp: zset_at_def)
      ultimately show ?thesis
        using r \<open>s k = Some v\<close> ZSet by (auto simp: zset_at_def)
    qed
  qed
qed

lemma claim_all_general:
  "distinct (claimed_tasks (fst (claim_all s k invs)))
   \<and> set (claimed_tasks (fst (claim_all s k invs))) \<subseteq> fst ` set (zset_at s k)
   \<and> fst ` set (zset_at (snd (claim_all s k invs)) k)
        \<subseteq> fst ` set (zset_at s k) - set (claimed_tasks (fst (claim_all s k invs)))"
proof (induction invs arbitrary: s)
  case Nil
  then show ?case by simp
next
  case (Cons a invs)
  obtain ipk now where a: "a = (ipk, now)" by (cases a)
  obtain r s1 where step: "consume_script s k ipk now = (r, s1)"
    by (cases "consume_script s k ipk now")
  obtain rs s2 where rest: "claim_all s1 k invs = (rs, s2)"
    by (cases "claim_all s1 k invs")
  have all: "claim_all s k (a # invs) = (r # rs, s2)"
    by (simp add: a step rest)
  have ih: "distinct (claimed_tasks rs)"
    "set (claimed_tasks rs) \<subseteq> fst ` set (zset_at s1 k)"
    "fst ` set (zset_at s2 k) \<subseteq> fst ` set (zset_at s1 k) - set (claimed_tasks rs)"
    using Cons.IH[of s1] rest by simp_all
  from consume_script_cases[OF step]
  show ?case
  proof
    assume "\<exists>m. r = Claimed m \<and> m \<in> fst ` set (zset_at s k)
          \<and> fst ` set (zset_at s1 k) \<subseteq> fst ` set (zset_at s k) - {m}"
    then obtain m where m: "r = Claimed m" "m \<in> fst ` set (zset_at s k)"
        "fst ` set (zset_at s1 k) \<subseteq> fst ` set (zset_at s k) - {m}"
      by blast
    have c: "claimed_tasks (r # rs) = m # claimed_tasks rs"
      using m(1) by simp
    have "m \<notin> set (claimed_tasks rs)"
      using ih(2) m(3) by blast
    then have d1: "distinct (m # claimed_tasks rs)"
      using ih(1) by simp
    have d2: "set (m # claimed_tasks rs) \<subseteq> fst ` set (zset_at s k)"
      using ih(2) m(2,3) by (simp only: list.set) blast
    have d3: "fst ` set (zset_at s2 k) \<subseteq> fst ` set (zset_at s k) - set (m # claimed_tasks rs)"
      using ih(3) m(3) by (simp only: list.set) blast
    show ?thesis
      using d1 d2 d3 by (simp add: all c)
  next
    assume n: "(r = NoTask \<or> (\<exists>e. r = ScriptFailed e)) \<and> s1 = s"
    then have c: "claimed_tasks (r # rs) = claimed_tasks rs"
      by auto
    show ?thesis
      using ih n by (simp add: all c)
  qed
qed

subsection \<open>No task is claimed twice\<close>

text \<open>
  C4. For every store and every list of claim invocations, run by the store in any order:
  no entry is handed out by two invocations, every entry handed out was in the Schedule,
  and no entry handed out is in the Schedule afterwards. In particular, let the Schedule
  hold exactly one due entry \<open>m\<close> at the time of every one of \<open>N \<ge> 1\<close> invocations: then
  exactly one invocation (the first that the store runs) returns \<open>m\<close>, the other \<open>N - 1\<close>
  return the "no task" sentinel, and afterwards \<open>m\<close> is no longer in the Schedule.
\<close>

theorem claim_no_double:
  "distinct (claimed_tasks (fst (claim_all s scheduleKey invs)))
   \<and> set (claimed_tasks (fst (claim_all s scheduleKey invs))) \<subseteq> fst ` set (zset_at s scheduleKey)
   \<and> set (claimed_tasks (fst (claim_all s scheduleKey invs)))
        \<inter> fst ` set (zset_at (snd (claim_all s scheduleKey invs)) scheduleKey) = {}
   \<and> (s scheduleKey = Some (ZSet z)
        \<and> (\<forall>(ipk, now) \<in> set invs. ipk \<noteq> scheduleKey \<and> due z now = [(m, sc)])
        \<and> invs \<noteq> [] \<longrightarrow>
          fst (claim_all s scheduleKey invs) = Claimed m # replicate (length invs - 1) NoTask
        \<and> length (filter (\<lambda>r. r = Claimed m) (fst (claim_all s scheduleKey invs))) = 1
        \<and> snd (claim_all s scheduleKey invs) scheduleKey = Some (ZSet (zset_rem z m))
        \<and> m \<notin> fst ` set (zset_rem z m))"
proof -
  have g: "distinct (claimed_tasks (fst (claim_all s scheduleKey invs)))
   \<and> set (claimed_tasks (fst (claim_all s scheduleKey invs))) \<subseteq> fst ` set (zset_at s scheduleKey)
   \<and> set (claimed_tasks (fst (claim_all s scheduleKey invs)))
        \<inter> fst ` set (zset_at (snd (claim_all s scheduleKey invs)) scheduleKey) = {}"
    using claim_all_general[of s scheduleKey invs] by blast
  have sc: "fst (claim_all s scheduleKey invs) = Claimed m # replicate (length invs - 1) NoTask
        \<and> length (filter (\<lambda>r. r = Claimed m) (fst (claim_all s scheduleKey invs))) = 1
        \<and> snd (claim_all s scheduleKey invs) scheduleKey = Some (ZSet (zset_rem z m))
        \<and> m \<notin> fst ` set (zset_rem z m)"
    if a1: "s scheduleKey = Some (ZSet z)"
      and a2: "\<forall>(ipk, now) \<in> set invs. ipk \<noteq> scheduleKey \<and> due z now = [(m, sc)]"
      and a3: "invs \<noteq> []"
  proof -
    obtain ipk now rest where invs: "invs = (ipk, now) # rest"
      using a3 by (cases invs) auto
    have first: "ipk \<noteq> scheduleKey" "due z now = [(m, sc)]"
      using a2 invs by auto
    let ?s' = "(s(scheduleKey \<mapsto> ZSet (zset_rem z m)))(ipk \<mapsto> Str m)"
    have step: "consume_script s scheduleKey ipk now = (Claimed m, ?s')"
      using a1 first(2) by (simp add: consume_script_def lowest_due_single)
    have s': "?s' scheduleKey = Some (ZSet (zset_rem z m))"
      using first(1) by simp
    have "\<forall>(ipk', now') \<in> set rest. due (zset_rem z m) now' = []"
      using a2 invs by (auto simp: due_zset_rem)
    from claim_all_none[of ?s' scheduleKey "zset_rem z m" rest, OF s' this]
    have rest: "claim_all ?s' scheduleKey rest = (replicate (length rest) NoTask, ?s')" .
    have all: "claim_all s scheduleKey invs = (Claimed m # replicate (length rest) NoTask, ?s')"
      by (simp add: invs step rest)
    have "m \<notin> fst ` set (zset_rem z m)"
      by (auto simp: zset_rem_def)
    then show ?thesis
      using all s' invs by simp
  qed
  from g sc show ?thesis by blast
qed

theorem claim_no_double_witness:
  "store one_task_world ''taskqueue:simple:tasks:dummy-consumer'' = Some (ZSet [(''task0'', 5)])
   \<and> ''worker1'' \<noteq> ''taskqueue:simple:tasks:dummy-consumer''
   \<and> ''worker2'' \<noteq> ''taskqueue:simple:tasks:dummy-consumer''
   \<and> ''worker3'' \<noteq> ''taskqueue:simple:tasks:dummy-consumer''
   \<and> due [(''task0'', 5)] 5 = [(''task0'', 5)]
   \<and> due [(''task0'', 5)] 6 = [(''task0'', 5)]
   \<and> [(''worker1'', 5 :: int), (''worker2'', 5), (''worker3'', 6)] \<noteq> []
   \<and> fst (claim_all (store one_task_world) ''taskqueue:simple:tasks:dummy-consumer''
             [(''worker1'', 5), (''worker2'', 5), (''worker3'', 6)])
        = [Claimed ''task0'', NoTask, NoTask]
   \<and> snd (claim_all (store one_task_world) ''taskqueue:simple:tasks:dummy-consumer''
             [(''worker1'', 5), (''worker2'', 5), (''worker3'', 6)])
          ''taskqueue:simple:tasks:dummy-consumer'' = Some (ZSet [])
   \<and> fst (claim_all [''q'' \<mapsto> ZSet [(''a'', 3), (''b'', 4), (''c'', 9)]] ''q''
             [(''worker1'', 5), (''worker2'', 5), (''worker3'', 6)])
        = [Claimed ''a'', Claimed ''b'', NoTask]
   \<and> distinct (claimed_tasks (fst (claim_all [''q'' \<mapsto> ZSet [(''a'', 3), (''b'', 4), (''c'', 9)]] ''q''
             [(''worker1'', 5), (''worker2'', 5), (''worker3'', 6)])))
   \<and> set (claimed_tasks (fst (claim_all [''q'' \<mapsto> ZSet [(''a'', 3), (''b'', 4), (''c'', 9)]] ''q''
             [(''worker1'', 5), (''worker2'', 5), (''worker3'', 6)])))
        \<inter> fst ` set (zset_at (snd (claim_all [''q'' \<mapsto> ZSet [(''a'', 3), (''b'', 4), (''c'', 9)]] ''q''
             [(''worker1'', 5), (''worker2'', 5), (''worker3'', 6)])) ''q'') = {}"
proof -
  have h1: "store one_task_world ''taskqueue:simple:tasks:dummy-consumer'' = Some (ZSet [(''task0'', 5)])"
    by (simp add: one_task_world_def)
  have h2: "\<forall>(ipk, now) \<in> set [(''worker1'', 5), (''worker2'', 5), (''worker3'', 6)].
         ipk \<noteq> ''taskqueue:simple:tasks:dummy-consumer'' \<and> due [(''task0'', 5)] now = [(''task0'', 5)]"
    by (simp add: due_def)
  have h3: "[(''worker1'', 5 :: int), (''worker2'', 5), (''worker3'', 6)] \<noteq> []"
    by simp
  have a: "fst (claim_all (store one_task_world) ''taskqueue:simple:tasks:dummy-consumer''
             [(''worker1'', 5), (''worker2'', 5), (''worker3'', 6)])
        = [Claimed ''task0'', NoTask, NoTask]
   \<and> snd (claim_all (store one_task_world) ''taskqueue:simple:tasks:dummy-consumer''
             [(''worker1'', 5), (''worker2'', 5), (''worker3'', 6)])
          ''taskqueue:simple:tasks:dummy-consumer'' = Some (ZSet [])"
    using h1 h2 h3 claim_no_double [where s = "store one_task_world"
        and scheduleKey = "''taskqueue:simple:tasks:dummy-consumer''"
        and invs = "[(''worker1'', 5), (''worker2'', 5), (''worker3'', 6)]"
        and z = "[(''task0'', 5)]" and m = "''task0''" and sc = 5]
    by (simp add: zset_rem_def del: claim_all.simps)
  have b: "fst (claim_all [''q'' \<mapsto> ZSet [(''a'', 3), (''b'', 4), (''c'', 9)]] ''q''
             [(''worker1'', 5), (''worker2'', 5), (''worker3'', 6)])
        = [Claimed ''a'', Claimed ''b'', NoTask]"
    by (simp add: consume_script_def zset_rem_def)
  have c: "distinct (claimed_tasks (fst (claim_all [''q'' \<mapsto> ZSet [(''a'', 3), (''b'', 4), (''c'', 9)]] ''q''
             [(''worker1'', 5), (''worker2'', 5), (''worker3'', 6)])))
   \<and> set (claimed_tasks (fst (claim_all [''q'' \<mapsto> ZSet [(''a'', 3), (''b'', 4), (''c'', 9)]] ''q''
             [(''worker1'', 5), (''worker2'', 5), (''worker3'', 6)])))
        \<inter> fst ` set (zset_at (snd (claim_all [''q'' \<mapsto> ZSet [(''a'', 3), (''b'', 4), (''c'', 9)]] ''q''
             [(''worker1'', 5), (''worker2'', 5), (''worker3'', 6)])) ''q'') = {}"
    using claim_no_double [where s = "[''q'' \<mapsto> ZSet [(''a'', 3), (''b'', 4), (''c'', 9)]]"
        and scheduleKey = "''q''" and invs = "[(''worker1'', 5), (''worker2'', 5), (''worker3'', 6)]"]
    by blast
  show ?thesis
    using h1 h3 a b c by (simp add: due_def del: claim_all.simps)
qed

text \<open>
  The same holds for the workers' calls of \<open>getTask\<close>, when the store calls go through and
  the claimed bytes decode: the first call returns the task, every other call returns
  \<open>ErrNoTaskToConsume\<close>, and the task is gone from the Schedule.
\<close>

lemma getTask_claimed:
  assumes "fault_EvalSha ev = None"
    and "consume_script (store w) (taskQueueKey t) (inProgressTaskKey t) (Unix (now_claim ev)) = (Claimed m, s')"
    and "m \<noteq> StatusOK" and "json_Unmarshal c m = Inr task"
  shows "fst (getTask c t ev w) = Inr task \<and> store (snd (getTask c t ev w)) = s'"
  using assms by (simp add: getTask_def redis_EvalSha_def Let_def)

lemma getTask_empty:
  assumes "fault_EvalSha ev = None"
    and "consume_script (store w) (taskQueueKey t) (inProgressTaskKey t) (Unix (now_claim ev)) = (NoTask, s')"
  shows "fst (getTask c t ev w) = Inl ErrNoTaskToConsume \<and> store (snd (getTask c t ev w)) = s'"
  using assms by (simp add: getTask_def redis_EvalSha_def Let_def)

lemma getTask_all_empty:
  assumes "store w k = Some (ZSet z)"
    and "\<forall>(t, ev) \<in> set ws. taskQueueKey t = k \<and> fault_EvalSha ev = None
           \<and> due z (Unix (now_claim ev)) = []"
  shows "fst (getTask_all c ws w) = replicate (length ws) (Inl ErrNoTaskToConsume)
       \<and> store (snd (getTask_all c ws w)) = store w"
  using assms
proof (induction ws arbitrary: w)
  case Nil
  then show ?case by simp
next
  case (Cons a ws)
  obtain t ev where a: "a = (t, ev)" by (cases a)
  have h: "taskQueueKey t = k" "fault_EvalSha ev = None" "due z (Unix (now_claim ev)) = []"
    using Cons.prems(2) a by auto
  have "consume_script (store w) (taskQueueKey t) (inProgressTaskKey t) (Unix (now_claim ev))
          = (NoTask, store w)"
    using Cons.prems(1) h by (simp add: consume_script_def lowest_due_none)
  from getTask_empty[OF h(2) this]
  have g: "fst (getTask c t ev w) = Inl ErrNoTaskToConsume" "store (snd (getTask c t ev w)) = store w"
    by simp_all
  have "store (snd (getTask c t ev w)) k = Some (ZSet z)"
    using g(2) Cons.prems(1) by simp
  from Cons.IH[OF this] Cons.prems(2)
  have "fst (getTask_all c ws (snd (getTask c t ev w))) = replicate (length ws) (Inl ErrNoTaskToConsume)
       \<and> store (snd (getTask_all c ws (snd (getTask c t ev w)))) = store (snd (getTask c t ev w))"
    by simp
  then show ?case
    using g by (auto simp: a split: prod.splits)
qed

lemma getTask_no_double:
  assumes "store w k = Some (ZSet z)"
    and "\<forall>(t, ev) \<in> set ws. taskQueueKey t = k \<and> inProgressTaskKey t \<noteq> k
           \<and> fault_EvalSha ev = None \<and> due z (Unix (now_claim ev)) = [(m, sc)]"
    and "ws \<noteq> []" and "m \<noteq> StatusOK" and "json_Unmarshal c m = Inr task"
  shows "fst (getTask_all c ws w) = Inr task # replicate (length ws - 1) (Inl ErrNoTaskToConsume)
       \<and> store (snd (getTask_all c ws w)) k = Some (ZSet (zset_rem z m))"
proof -
  obtain t ev rest where ws: "ws = (t, ev) # rest"
    using assms(3) by (cases ws) auto
  have h: "taskQueueKey t = k" "inProgressTaskKey t \<noteq> k" "fault_EvalSha ev = None"
      "due z (Unix (now_claim ev)) = [(m, sc)]"
    using assms(2) ws by auto
  let ?s' = "((store w)(k \<mapsto> ZSet (zset_rem z m)))(inProgressTaskKey t \<mapsto> Str m)"
  have "consume_script (store w) (taskQueueKey t) (inProgressTaskKey t) (Unix (now_claim ev))
          = (Claimed m, ?s')"
    using assms(1) h by (simp add: consume_script_def lowest_due_single)
  from getTask_claimed[OF h(3) this assms(4,5)]
  have g: "fst (getTask c t ev w) = Inr task" "store (snd (getTask c t ev w)) = ?s'"
    by simp_all
  have k: "store (snd (getTask c t ev w)) k = Some (ZSet (zset_rem z m))"
    using g(2) h(2) by simp
  have "\<forall>(t', ev') \<in> set rest. taskQueueKey t' = k \<and> fault_EvalSha ev' = None
           \<and> due (zset_rem z m) (Unix (now_claim ev')) = []"
    using assms(2) ws by (auto simp: due_zset_rem)
  from getTask_all_empty[OF k this, of c]
  have "fst (getTask_all c rest (snd (getTask c t ev w))) = replicate (length rest) (Inl ErrNoTaskToConsume)"
    "store (snd (getTask_all c rest (snd (getTask c t ev w)))) = store (snd (getTask c t ev w))"
    by simp_all
  then show ?thesis
    using g(1) k by (auto simp: ws split: prod.splits)
qed

subsection \<open>Auxiliary facts on the loop\<close>

lemma quiet_simps [simp]:
  "quiet []" "quiet (Log Debug msg e # ls) = quiet ls" "quiet (Log Warn msg e # ls) = quiet ls"
  "quiet (xs @ ys) \<longleftrightarrow> quiet xs \<and> quiet ys"
  by (auto simp: quiet_def)

lemma level_logs_quiet:
  "quiet ds \<Longrightarrow> l = Info \<or> l = Error \<Longrightarrow> level_logs l (ls @ ds) = level_logs l ls"
  by (induction ds) (auto simp: level_logs_def quiet_def split: log_entry.splits)

lemma level_logs_snoc:
  "level_logs l (ls @ [Log l' msg e]) = level_logs l ls @ (if l' = l then [Log l' msg e] else [])"
  by (simp add: level_logs_def)

lemma getTask_logs: "\<exists>ds. logs (snd (getTask c t ev w)) = logs w @ ds \<and> quiet ds"
  by (auto simp: getTask_def Let_def split: sum.splits prod.splits reply.splits)

lemma produceRetry_logs: "logs (snd (produceRetry c t ev task w)) = logs w"
  by (auto simp: produceRetry_def produceAt_def Let_def split: sum.splits prod.splits option.splits)

lemma removeInProgressTask_logs: "\<exists>ds. logs (removeInProgressTask t ev task w) = logs w @ ds \<and> quiet ds"
  by (auto simp: removeInProgressTask_def split: prod.splits option.splits)

lemma consume_logs: "\<exists>ds. logs (snd (consume c t ev handler w)) = logs w @ ds \<and> quiet ds"
proof (cases "getTask c t ev w")
  case (Pair r w1)
  obtain d1 where d1: "logs w1 = logs w @ d1" "quiet d1"
    using getTask_logs[of c t ev w] Pair by auto
  show ?thesis
  proof (cases r)
    case (Inl err)
    then show ?thesis using Pair d1 by (auto simp: consume_def)
  next
    case (Inr task)
    obtain w' where w': "snd (consume c t ev handler w) = removeInProgressTask t ev task w'"
      and lw': "\<exists>ds. logs w' = logs w1 @ ds \<and> quiet ds"
    proof (cases "handler (ID task) (Payload task)")
      case None
      then show ?thesis
        using Pair Inr that by (simp add: consume_def run_handler_def)
    next
      case (Some err)
      let ?w4 = "log Debug ''failed to consume, retrying after backoff'' (Some err)
               ((log Debug ''consuming task'' None w1)
                  \<lparr>calls := calls w1 @ [(ID task, Payload task)]\<rparr>)"
      have "snd (consume c t ev handler w)
              = removeInProgressTask t ev task (snd (produceRetry c t ev task ?w4))"
        using Pair Inr Some
        by (auto simp: consume_def run_handler_def Let_def split: prod.splits option.splits)
      moreover have "\<exists>ds. logs (snd (produceRetry c t ev task ?w4)) = logs w1 @ ds \<and> quiet ds"
        by (simp add: produceRetry_logs)
      ultimately show ?thesis using that by blast
    qed
    obtain d2 where d2: "logs w' = logs w1 @ d2" "quiet d2"
      using lw' by blast
    obtain d3 where d3: "logs (removeInProgressTask t ev task w') = logs w' @ d3" "quiet d3"
      using removeInProgressTask_logs by blast
    have "logs (snd (consume c t ev handler w)) = logs w @ (d1 @ d2 @ d3)"
      by (simp add: w' d3 d2 d1)
    moreover have "quiet (d1 @ d2 @ d3)"
      using d1 d2 d3 by simp
    ultimately show ?thesis by blast
  qed
qed

lemma consume_level_logs:
  assumes "l = Info \<or> l = Error"
  shows "level_logs l (logs (snd (consume c t ev handler w))) = level_logs l (logs w)"
proof -
  obtain ds where "logs (snd (consume c t ev handler w)) = logs w @ ds" "quiet ds"
    using consume_logs by blast
  then show ?thesis using level_logs_quiet[OF _ assms] by simp
qed

lemma Consume_returns_iff: "fst (Consume c t handler es w) \<longleftrightarrow> Done \<in> set es"
proof (induction es arbitrary: w)
  case Nil
  then show ?case by simp
next
  case (Cons e es)
  show ?case
  proof (cases e)
    case (Tick ev)
    then show ?thesis
      using Cons.IH by (auto simp: Let_def split: prod.splits option.splits)
  next
    case Done
    then show ?thesis by simp
  qed
qed

lemma Consume_until_Done:
  "Done \<notin> set es1 \<Longrightarrow>
     Consume c t handler (es1 @ Done # es2) w
       = (True, log Info ''stopping'' None (snd (Consume c t handler es1 w)))"
proof (induction es1 arbitrary: w)
  case Nil
  then show ?case by simp
next
  case (Cons e es)
  then obtain ev where e: "e = Tick ev" by (cases e) auto
  show ?case
    using Cons by (auto simp: e Let_def split: prod.splits option.splits)
qed

lemma Consume_error_logs:
  "Done \<notin> set es \<Longrightarrow>
     level_logs Error (logs (snd (Consume c t handler es w)))
       = level_logs Error (logs w)
         @ map (\<lambda>err. Log Error ''failed to call consume function'' (Some err))
               (tick_errors c t handler es w)"
proof (induction es arbitrary: w)
  case Nil
  then show ?case by simp
next
  case (Cons e es)
  then obtain ev where e: "e = Tick ev" by (cases e) auto
  let ?w1 = "log Info ''consuming task'' None w"
  have l1: "level_logs Error (logs (snd (consume c t ev handler ?w1))) = level_logs Error (logs w)"
    by (simp add: consume_level_logs level_logs_snoc)
  show ?case
  proof (cases "consume c t ev handler ?w1")
    case (Pair r w2)
    then have l2: "level_logs Error (logs w2) = level_logs Error (logs w)"
      using l1 by simp
    show ?thesis
    proof (cases r)
      case None
      then show ?thesis
        using Cons Pair l2 by (simp add: e Let_def)
    next
      case (Some err)
      have "level_logs Error (logs (log Error ''failed to call consume function'' (Some err) w2))
              = level_logs Error (logs w) @ [Log Error ''failed to call consume function'' (Some err)]"
        using l2 by (simp add: level_logs_snoc)
      then show ?thesis
        using Cons Pair Some by (simp add: e Let_def)
    qed
  qed
qed

lemma Consume_tick_logs:
  "Done \<notin> set es \<Longrightarrow>
     length (level_logs Info (logs (snd (Consume c t handler es w))))
       = length (level_logs Info (logs w)) + length es"
proof (induction es arbitrary: w)
  case Nil
  then show ?case by simp
next
  case (Cons e es)
  then obtain ev where e: "e = Tick ev" by (cases e) auto
  let ?w1 = "log Info ''consuming task'' None w"
  have l1: "level_logs Info (logs (snd (consume c t ev handler ?w1)))
              = level_logs Info (logs w) @ [Log Info ''consuming task'' None]"
    by (simp add: consume_level_logs level_logs_snoc)
  show ?case
  proof (cases "consume c t ev handler ?w1")
    case (Pair r w2)
    then have l2: "level_logs Info (logs w2) = level_logs Info (logs w) @ [Log Info ''consuming task'' None]"
      using l1 by simp
    show ?thesis
    proof (cases r)
      case None
      then show ?thesis
        using Cons Pair l2 by (simp add: e Let_def)
    next
      case (Some err)
      have "level_logs Info (logs (log Error ''failed to call consume function'' (Some err) w2))
              = level_logs Info (logs w) @ [Log Info ''consuming task'' None]"
        using l2 by (simp add: level_logs_snoc)
      then show ?thesis
        using Cons Pair Some by (simp add: e Let_def)
    qed
  qed
qed

lemma getTask_EvalSha_fault:
  "fault_EvalSha ev = Some e \<Longrightarrow>
     fst (getTask c t ev w) = Inl (Wrapped ''failed to execute consume script'' (RedisError e))"
  by (simp add: getTask_def redis_EvalSha_def Let_def)

lemma getTask_script_failed:
  assumes "fault_EvalSha ev = None"
    and "consume_script (store w) (taskQueueKey t) (inProgressTaskKey t) (Unix (now_claim ev)) = (ScriptFailed e, s')"
  shows "fst (getTask c t ev w) = Inl (Wrapped ''failed to execute consume script'' (RedisError e))"
  using assms by (simp add: getTask_def redis_EvalSha_def Let_def)

lemma getTask_decode_error:
  assumes "fault_EvalSha ev = None"
    and "consume_script (store w) (taskQueueKey t) (inProgressTaskKey t) (Unix (now_claim ev)) = (Claimed m, s')"
    and "m \<noteq> StatusOK" and "json_Unmarshal c m = Inl e"
  shows "fst (getTask c t ev w) =
           Inl (Wrapped ''failed to unmarshal task and permanently lost it'' (JsonError e))"
  using assms by (simp add: getTask_def redis_EvalSha_def Let_def)

lemma consume_getTask_error:
  assumes "fst (getTask c t ev w) = Inl err" and "\<not> errors_Is err ErrNoTaskToConsume"
  shows "fst (consume c t ev handler w) = Some (Wrapped ''failed to get task'' err)"
  using assms by (cases "getTask c t ev w") (simp add: consume_def)

lemma Consume_append:
  "Done \<notin> set es1 \<Longrightarrow>
     Consume c t handler (es1 @ es2) w = Consume c t handler es2 (snd (Consume c t handler es1 w))"
proof (induction es1 arbitrary: w)
  case Nil
  then show ?case by simp
next
  case (Cons e es)
  then obtain ev where e: "e = Tick ev" by (cases e) auto
  show ?case
    using Cons by (auto simp: e Let_def split: prod.splits option.splits)
qed

lemma Consume_logs_grow:
  "\<exists>ds. logs (snd (Consume c t handler es w)) = logs w @ ds"
proof (induction es arbitrary: w)
  case Nil
  then show ?case by simp
next
  case (Cons e es)
  show ?case
  proof (cases e)
    case Done
    then show ?thesis by simp
  next
    case (Tick ev)
    let ?w1 = "log Info ''consuming task'' None w"
    obtain r w2 where c: "consume c t ev handler ?w1 = (r, w2)"
      by (cases "consume c t ev handler ?w1")
    obtain d1 where d1: "logs w2 = logs ?w1 @ d1"
      using consume_logs[of c t ev handler ?w1] c by auto
    show ?thesis
    proof (cases r)
      case None
      obtain d2 where "logs (snd (Consume c t handler es w2)) = logs w2 @ d2"
        using Cons.IH by blast
      then show ?thesis
        using c None d1 by (simp add: Tick)
    next
      case (Some err)
      let ?w3 = "log Error ''failed to call consume function'' (Some err) w2"
      obtain d2 where "logs (snd (Consume c t handler es ?w3)) = logs ?w3 @ d2"
        using Cons.IH by blast
      then show ?thesis
        using c Some d1 by (simp add: Tick)
    qed
  qed
qed

lemma Consume_logs_error:
  assumes "Done \<notin> set es1"
    and "fst (consume c t ev handler (log Info ''consuming task'' None (snd (Consume c t handler es1 w)))) = Some err"
  shows "Log Error ''failed to call consume function'' (Some err)
           \<in> set (logs (snd (Consume c t handler (es1 @ Tick ev # es2) w)))"
proof -
  let ?w0 = "snd (Consume c t handler es1 w)"
  let ?w1 = "log Info ''consuming task'' None ?w0"
  obtain w2 where c: "consume c t ev handler ?w1 = (Some err, w2)"
    using assms(2) by (cases "consume c t ev handler ?w1") auto
  let ?w3 = "log Error ''failed to call consume function'' (Some err) w2"
  have "Consume c t handler (es1 @ Tick ev # es2) w = Consume c t handler (Tick ev # es2) ?w0"
    by (rule Consume_append[OF assms(1)])
  also have "\<dots> = Consume c t handler es2 ?w3"
    using c by simp
  finally have e: "Consume c t handler (es1 @ Tick ev # es2) w = Consume c t handler es2 ?w3" .
  obtain ds where "logs (snd (Consume c t handler es2 ?w3)) = logs ?w3 @ ds"
    using Consume_logs_grow by blast
  then show ?thesis
    by (simp add: e)
qed

lemma consume_handler_failure:
  assumes f: "fault_EvalSha ev = None"
    and s: "consume_script (store w) (taskQueueKey t) (inProgressTaskKey t) (Unix (now_claim ev)) = (Claimed m, s')"
    and m: "m \<noteq> StatusOK" and u: "json_Unmarshal c m = Inr task"
    and h: "handler (ID task) (Payload task) = Some err"
  shows "\<exists>w2. store w2 = s' \<and>
           fst (consume c t ev handler w) =
             (case fst (produceRetry c t ev task w2) of
                Some retryErr \<Rightarrow> Some (ErrTaskLost (ID task)
                   (Wrapped ''failed to run consume func and failed to enqueue it for retry'' retryErr))
              | None \<Rightarrow> Some (Wrapped ''failed to run consume func'' err))"
proof -
  let ?w2 = "snd (getTask c t ev w)"
  have g: "fst (getTask c t ev w) = Inr task" "store ?w2 = s'"
    using getTask_claimed[OF f s m u] by simp_all
  then have "getTask c t ev w = (Inr task, ?w2)"
    by (metis prod.collapse)
  from consume_after_failure[where handler = handler, OF this h] g(2)
  show ?thesis by blast
qed

subsection \<open>The loop ends on cancellation only\<close>

text \<open>
  C8. The loop has returned after a list of events if and only if the list contains the
  cancellation. As long as it does not, every tick received has been processed (one
  "consuming task" line of level info per tick), and when the cancellation comes next the
  loop returns from the state in which the last tick left it, whatever follows. The
  cancellation is looked at between ticks only: a tick, with its handler invocation, is
  one step of the loop.

  Every error that arises within a tick is in the log, at level error, whatever the loop
  receives afterwards. Take a tick received before any cancellation, \<open>w1\<close> the state in
  which its \<open>consume\<close> starts, and \<open>L\<close> the log after the whole run. A failed store call
  of the claim, or a failure of the script, is in \<open>L\<close> with its cause; so are a claimed
  entry that does not decode, a failure of the handler (wrapped), and, after a failure of
  the handler, a reschedule that is refused at the ceiling, that cannot be serialized, or
  that the store rejects (as \<open>ErrTaskLost\<close> with the task's id and the cause). Nothing
  else is logged at level error than what \<open>consume\<close> returned.
\<close>

theorem Consume_stops_only_on_Done:
  assumes nd: "Done \<notin> set es1"
    and w1: "w1 = log Info ''consuming task'' None (snd (Consume c t handler es1 w))"
    and L: "L = logs (snd (Consume c t handler (es1 @ Tick ev # es2) w))"
    and sc: "script = consume_script (store w1) (taskQueueKey t) (inProgressTaskKey t) (Unix (now_claim ev))"
  shows "(fst (Consume c t handler es w) \<longleftrightarrow> Done \<in> set es)
   \<and> (Done \<notin> set es \<longrightarrow>
         level_logs Error (logs (snd (Consume c t handler es w)))
           = level_logs Error (logs w)
             @ map (\<lambda>err. Log Error ''failed to call consume function'' (Some err))
                   (tick_errors c t handler es w)
       \<and> length (level_logs Info (logs (snd (Consume c t handler es w))))
           = length (level_logs Info (logs w)) + length es
       \<and> Consume c t handler (es @ Done # es') w
           = (True, log Info ''stopping'' None (snd (Consume c t handler es w))))
   \<and> (fault_EvalSha ev = Some e \<longrightarrow>
         Log Error ''failed to call consume function''
           (Some (Wrapped ''failed to get task''
              (Wrapped ''failed to execute consume script'' (RedisError e)))) \<in> set L)
   \<and> (fault_EvalSha ev = None \<and> script = (ScriptFailed e, s') \<longrightarrow>
         Log Error ''failed to call consume function''
           (Some (Wrapped ''failed to get task''
              (Wrapped ''failed to execute consume script'' (RedisError e)))) \<in> set L)
   \<and> (fault_EvalSha ev = None \<and> script = (Claimed m, s') \<and> m \<noteq> StatusOK
        \<and> json_Unmarshal c m = Inl e \<longrightarrow>
         Log Error ''failed to call consume function''
           (Some (Wrapped ''failed to get task''
              (Wrapped ''failed to unmarshal task and permanently lost it'' (JsonError e)))) \<in> set L)
   \<and> (fault_EvalSha ev = None \<and> script = (Claimed m, s') \<and> m \<noteq> StatusOK
        \<and> json_Unmarshal c m = Inr task \<and> handler (ID task) (Payload task) = Some err \<longrightarrow>
         (ceiling_reached t task \<longrightarrow>
            Log Error ''failed to call consume function''
              (Some (ErrTaskLost (ID task)
                 (Wrapped ''failed to run consume func and failed to enqueue it for retry''
                    (MaxTaskRetries ErrMaxTaskReties (ID task) (RetryCount task))))) \<in> set L)
       \<and> (\<not> ceiling_reached t task \<and> json_Marshal c (retry_task task) = Inl e1 \<longrightarrow>
            Log Error ''failed to call consume function''
              (Some (ErrTaskLost (ID task)
                 (Wrapped ''failed to run consume func and failed to enqueue it for retry''
                    (Wrapped ''failed to produce retry task'' (Wrapped ''failed to zadd message''
                       (Wrapped ''failed to marshal *Task'' (JsonError e1))))))) \<in> set L)
       \<and> (\<not> ceiling_reached t task \<and> json_Marshal c (retry_task task) = Inr data
            \<and> fst (redis_ZAdd (fault_ZAdd ev) s' (taskQueueKey t)
                      (float64_of_int (Unix (Add (now_retry ev) (retry_wait task)))) data) = Some e2 \<longrightarrow>
            Log Error ''failed to call consume function''
              (Some (ErrTaskLost (ID task)
                 (Wrapped ''failed to run consume func and failed to enqueue it for retry''
                    (Wrapped ''failed to produce retry task'' (Wrapped ''failed to zadd message'' e2)))))
              \<in> set L)
       \<and> (\<not> ceiling_reached t task \<and> \<not> reschedule_fails c t ev task s' \<longrightarrow>
            Log Error ''failed to call consume function''
              (Some (Wrapped ''failed to run consume func'' err)) \<in> set L))"
proof -
  have logged: "\<And>x. fst (consume c t ev handler w1) = Some x \<Longrightarrow>
      Log Error ''failed to call consume function'' (Some x) \<in> set L"
    unfolding w1 L by (rule Consume_logs_error[OF nd])
  have 1: "fst (Consume c t handler es w) \<longleftrightarrow> Done \<in> set es"
    by (rule Consume_returns_iff)
  have 2: "Done \<notin> set es \<longrightarrow>
         level_logs Error (logs (snd (Consume c t handler es w)))
           = level_logs Error (logs w)
             @ map (\<lambda>err. Log Error ''failed to call consume function'' (Some err))
                   (tick_errors c t handler es w)
       \<and> length (level_logs Info (logs (snd (Consume c t handler es w))))
           = length (level_logs Info (logs w)) + length es
       \<and> Consume c t handler (es @ Done # es') w
           = (True, log Info ''stopping'' None (snd (Consume c t handler es w)))"
    using Consume_error_logs[of es c t handler w]
      Consume_tick_logs[of es c t handler w] Consume_until_Done[of es c t handler es' w]
    by blast
  have 3: "fault_EvalSha ev = Some e \<longrightarrow>
         Log Error ''failed to call consume function''
           (Some (Wrapped ''failed to get task''
              (Wrapped ''failed to execute consume script'' (RedisError e)))) \<in> set L"
  proof
    assume "fault_EvalSha ev = Some e"
    from getTask_EvalSha_fault[OF this]
    have "fst (consume c t ev handler w1) = Some (Wrapped ''failed to get task''
              (Wrapped ''failed to execute consume script'' (RedisError e)))"
      by (intro consume_getTask_error) simp_all
    then show "Log Error ''failed to call consume function''
           (Some (Wrapped ''failed to get task''
              (Wrapped ''failed to execute consume script'' (RedisError e)))) \<in> set L"
      by (rule logged)
  qed
  have 4: "fault_EvalSha ev = None \<and> script = (ScriptFailed e, s') \<longrightarrow>
         Log Error ''failed to call consume function''
           (Some (Wrapped ''failed to get task''
              (Wrapped ''failed to execute consume script'' (RedisError e)))) \<in> set L"
  proof
    assume a: "fault_EvalSha ev = None \<and> script = (ScriptFailed e, s')"
    then have "consume_script (store w1) (taskQueueKey t) (inProgressTaskKey t) (Unix (now_claim ev))
                 = (ScriptFailed e, s')"
      using sc by simp
    from getTask_script_failed[OF conjunct1[OF a] this]
    have "fst (consume c t ev handler w1) = Some (Wrapped ''failed to get task''
              (Wrapped ''failed to execute consume script'' (RedisError e)))"
      by (intro consume_getTask_error) simp_all
    then show "Log Error ''failed to call consume function''
           (Some (Wrapped ''failed to get task''
              (Wrapped ''failed to execute consume script'' (RedisError e)))) \<in> set L"
      by (rule logged)
  qed
  have 5: "fault_EvalSha ev = None \<and> script = (Claimed m, s') \<and> m \<noteq> StatusOK
        \<and> json_Unmarshal c m = Inl e \<longrightarrow>
         Log Error ''failed to call consume function''
           (Some (Wrapped ''failed to get task''
              (Wrapped ''failed to unmarshal task and permanently lost it'' (JsonError e)))) \<in> set L"
  proof
    assume a: "fault_EvalSha ev = None \<and> script = (Claimed m, s') \<and> m \<noteq> StatusOK
        \<and> json_Unmarshal c m = Inl e"
    then have s: "consume_script (store w1) (taskQueueKey t) (inProgressTaskKey t) (Unix (now_claim ev))
                 = (Claimed m, s')"
      using sc by simp
    have "fst (getTask c t ev w1) =
           Inl (Wrapped ''failed to unmarshal task and permanently lost it'' (JsonError e))"
      using getTask_decode_error[OF _ s] a by blast
    then have "fst (consume c t ev handler w1) = Some (Wrapped ''failed to get task''
              (Wrapped ''failed to unmarshal task and permanently lost it'' (JsonError e)))"
      by (intro consume_getTask_error) simp_all
    then show "Log Error ''failed to call consume function''
           (Some (Wrapped ''failed to get task''
              (Wrapped ''failed to unmarshal task and permanently lost it'' (JsonError e)))) \<in> set L"
      by (rule logged)
  qed
  have 6: "fault_EvalSha ev = None \<and> script = (Claimed m, s') \<and> m \<noteq> StatusOK
        \<and> json_Unmarshal c m = Inr task \<and> handler (ID task) (Payload task) = Some err \<longrightarrow>
         (ceiling_reached t task \<longrightarrow>
            Log Error ''failed to call consume function''
              (Some (ErrTaskLost (ID task)
                 (Wrapped ''failed to run consume func and failed to enqueue it for retry''
                    (MaxTaskRetries ErrMaxTaskReties (ID task) (RetryCount task))))) \<in> set L)
       \<and> (\<not> ceiling_reached t task \<and> json_Marshal c (retry_task task) = Inl e1 \<longrightarrow>
            Log Error ''failed to call consume function''
              (Some (ErrTaskLost (ID task)
                 (Wrapped ''failed to run consume func and failed to enqueue it for retry''
                    (Wrapped ''failed to produce retry task'' (Wrapped ''failed to zadd message''
                       (Wrapped ''failed to marshal *Task'' (JsonError e1))))))) \<in> set L)
       \<and> (\<not> ceiling_reached t task \<and> json_Marshal c (retry_task task) = Inr data
            \<and> fst (redis_ZAdd (fault_ZAdd ev) s' (taskQueueKey t)
                      (float64_of_int (Unix (Add (now_retry ev) (retry_wait task)))) data) = Some e2 \<longrightarrow>
            Log Error ''failed to call consume function''
              (Some (ErrTaskLost (ID task)
                 (Wrapped ''failed to run consume func and failed to enqueue it for retry''
                    (Wrapped ''failed to produce retry task'' (Wrapped ''failed to zadd message'' e2)))))
              \<in> set L)
       \<and> (\<not> ceiling_reached t task \<and> \<not> reschedule_fails c t ev task s' \<longrightarrow>
            Log Error ''failed to call consume function''
              (Some (Wrapped ''failed to run consume func'' err)) \<in> set L)"
  proof
    assume a: "fault_EvalSha ev = None \<and> script = (Claimed m, s') \<and> m \<noteq> StatusOK
        \<and> json_Unmarshal c m = Inr task \<and> handler (ID task) (Payload task) = Some err"
    then have s: "consume_script (store w1) (taskQueueKey t) (inProgressTaskKey t) (Unix (now_claim ev))
                 = (Claimed m, s')"
      using sc by simp
    obtain w2 where w2: "store w2 = s'"
      and r: "fst (consume c t ev handler w1) =
             (case fst (produceRetry c t ev task w2) of
                Some retryErr \<Rightarrow> Some (ErrTaskLost (ID task)
                   (Wrapped ''failed to run consume func and failed to enqueue it for retry'' retryErr))
              | None \<Rightarrow> Some (Wrapped ''failed to run consume func'' err))"
      using consume_handler_failure[where handler = handler, OF _ s] a by blast
    have c1: "ceiling_reached t task \<longrightarrow>
            Log Error ''failed to call consume function''
              (Some (ErrTaskLost (ID task)
                 (Wrapped ''failed to run consume func and failed to enqueue it for retry''
                    (MaxTaskRetries ErrMaxTaskReties (ID task) (RetryCount task))))) \<in> set L"
      by (intro impI logged) (simp add: r produceRetry_at_ceiling)
    have c2: "\<not> ceiling_reached t task \<and> json_Marshal c (retry_task task) = Inl e1 \<longrightarrow>
            Log Error ''failed to call consume function''
              (Some (ErrTaskLost (ID task)
                 (Wrapped ''failed to run consume func and failed to enqueue it for retry''
                    (Wrapped ''failed to produce retry task'' (Wrapped ''failed to zadd message''
                       (Wrapped ''failed to marshal *Task'' (JsonError e1))))))) \<in> set L"
      by (intro impI logged) (simp add: r produceRetry_marshal_fails)
    have c3: "\<not> ceiling_reached t task \<and> json_Marshal c (retry_task task) = Inr data
            \<and> fst (redis_ZAdd (fault_ZAdd ev) s' (taskQueueKey t)
                      (float64_of_int (Unix (Add (now_retry ev) (retry_wait task)))) data) = Some e2 \<longrightarrow>
            Log Error ''failed to call consume function''
              (Some (ErrTaskLost (ID task)
                 (Wrapped ''failed to run consume func and failed to enqueue it for retry''
                    (Wrapped ''failed to produce retry task'' (Wrapped ''failed to zadd message'' e2)))))
              \<in> set L"
      by (intro impI logged) (simp add: r w2 produceRetry_zadd_fails)
    have c4: "\<not> ceiling_reached t task \<and> \<not> reschedule_fails c t ev task s' \<longrightarrow>
            Log Error ''failed to call consume function''
              (Some (Wrapped ''failed to run consume func'' err)) \<in> set L"
    proof
      assume b: "\<not> ceiling_reached t task \<and> \<not> reschedule_fails c t ev task s'"
      then have "fst (produceRetry c t ev task w2) = None"
        using produceRetry_error_iff[of c t ev task w2] w2 by simp
      then have "fst (consume c t ev handler w1) = Some (Wrapped ''failed to run consume func'' err)"
        by (simp add: r)
      then show "Log Error ''failed to call consume function''
              (Some (Wrapped ''failed to run consume func'' err)) \<in> set L"
        by (rule logged)
    qed
    from c1 c2 c3 c4
    show "(ceiling_reached t task \<longrightarrow>
            Log Error ''failed to call consume function''
              (Some (ErrTaskLost (ID task)
                 (Wrapped ''failed to run consume func and failed to enqueue it for retry''
                    (MaxTaskRetries ErrMaxTaskReties (ID task) (RetryCount task))))) \<in> set L)
       \<and> (\<not> ceiling_reached t task \<and> json_Marshal c (retry_task task) = Inl e1 \<longrightarrow>
            Log Error ''failed to call consume function''
              (Some (ErrTaskLost (ID task)
                 (Wrapped ''failed to run consume func and failed to enqueue it for retry''
                    (Wrapped ''failed to produce retry task'' (Wrapped ''failed to zadd message''
                       (Wrapped ''failed to marshal *Task'' (JsonError e1))))))) \<in> set L)
       \<and> (\<not> ceiling_reached t task \<and> json_Marshal c (retry_task task) = Inr data
            \<and> fst (redis_ZAdd (fault_ZAdd ev) s' (taskQueueKey t)
                      (float64_of_int (Unix (Add (now_retry ev) (retry_wait task)))) data) = Some e2 \<longrightarrow>
            Log Error ''failed to call consume function''
              (Some (ErrTaskLost (ID task)
                 (Wrapped ''failed to run consume func and failed to enqueue it for retry''
                    (Wrapped ''failed to produce retry task'' (Wrapped ''failed to zadd message'' e2)))))
              \<in> set L)
       \<and> (\<not> ceiling_reached t task \<and> \<not> reschedule_fails c t ev task s' \<longrightarrow>
            Log Error ''failed to call consume function''
              (Some (Wrapped ''failed to run consume func'' err)) \<in> set L)"
      by blast
  qed
  from 1 2 3 4 5 6 show ?thesis by blast
qed

lemma example_script:
  "consume_script (store one_task_world)
      (taskQueueKey (example_queue k)) (inProgressTaskKey (example_queue k)) 5 =
     (Claimed ''task0'',
      [''taskqueue:simple:tasks:dummy-consumer'' \<mapsto> ZSet [],
       ''taskqueue:simple:workers:worker1:tasks:dummy-consumer'' \<mapsto> Str ''task0''])"
  by (simp add: consume_script_def zset_rem_def one_task_world_def example_queue_def)

theorem Consume_stops_only_on_Done_witness:
  "Done \<notin> set ([] :: event list)
   \<and> Done \<notin> set [Tick example_env, Tick example_env]
   \<and> \<not> fst (Consume example_codec (example_queue 0) failing_handler
              [Tick example_env, Tick example_env] one_task_world)
   \<and> fst (Consume example_codec (example_queue 0) failing_handler
              ([Tick example_env, Tick example_env] @ Done # [Tick example_env]) one_task_world)
   \<and> length (level_logs Info (logs (snd (Consume example_codec (example_queue 0) failing_handler
              [Tick example_env, Tick example_env] one_task_world)))) = 2
   \<and> fault_EvalSha (example_env\<lparr>fault_EvalSha := Some ''timeout''\<rparr>) = Some ''timeout''
   \<and> Log Error ''failed to call consume function''
         (Some (Wrapped ''failed to get task''
            (Wrapped ''failed to execute consume script'' (RedisError ''timeout''))))
       \<in> set (logs (snd (Consume example_codec (example_queue 0) failing_handler
              ([] @ Tick (example_env\<lparr>fault_EvalSha := Some ''timeout''\<rparr>) # [Tick example_env])
              one_task_world)))
   \<and> consume_script (store (log Info ''consuming task'' None wrongtype_world))
        (taskQueueKey (example_queue 0)) (inProgressTaskKey (example_queue 0)) (Unix (now_claim example_env))
       = (ScriptFailed ''WRONGTYPE'', store wrongtype_world)
   \<and> Log Error ''failed to call consume function''
         (Some (Wrapped ''failed to get task''
            (Wrapped ''failed to execute consume script'' (RedisError ''WRONGTYPE''))))
       \<in> set (logs (snd (Consume example_codec (example_queue 0) failing_handler
              ([] @ Tick example_env # []) wrongtype_world)))
   \<and> json_Unmarshal example_codec ''garbage'' = Inl ''invalid character''
   \<and> ''garbage'' \<noteq> StatusOK
   \<and> Log Error ''failed to call consume function''
         (Some (Wrapped ''failed to get task''
            (Wrapped ''failed to unmarshal task and permanently lost it'' (JsonError ''invalid character''))))
       \<in> set (logs (snd (Consume example_codec (example_queue 0) failing_handler
              ([] @ Tick example_env # []) corrupt_world)))
   \<and> json_Unmarshal example_codec ''task0'' = Inr example_task
   \<and> failing_handler (ID example_task) (Payload example_task) = Some (HandlerError ''boom'')
   \<and> ceiling_reached (example_queue 0) example_task
   \<and> Log Error ''failed to call consume function''
         (Some (ErrTaskLost 7
            (Wrapped ''failed to run consume func and failed to enqueue it for retry''
               (MaxTaskRetries ErrMaxTaskReties 7 0))))
       \<in> set (logs (snd (Consume example_codec (example_queue 0) failing_handler
              ([] @ Tick example_env # [Tick example_env]) one_task_world)))
   \<and> \<not> ceiling_reached (example_queue (- 1)) example_task
   \<and> Log Error ''failed to call consume function''
         (Some (Wrapped ''failed to run consume func'' (HandlerError ''boom'')))
       \<in> set (logs (snd (Consume example_codec (example_queue (- 1)) failing_handler
              ([] @ Tick example_env # []) one_task_world)))
   \<and> Log Error ''failed to call consume function''
         (Some (ErrTaskLost 7
            (Wrapped ''failed to run consume func and failed to enqueue it for retry''
               (Wrapped ''failed to produce retry task'' (Wrapped ''failed to zadd message''
                  (RedisError ''timeout''))))))
       \<in> set (logs (snd (Consume example_codec (example_queue (- 1)) failing_handler
              ([] @ Tick (example_env\<lparr>fault_ZAdd := Some ''timeout''\<rparr>) # []) one_task_world)))
   \<and> Log Error ''failed to call consume function''
         (Some (ErrTaskLost 7
            (Wrapped ''failed to run consume func and failed to enqueue it for retry''
               (Wrapped ''failed to produce retry task'' (Wrapped ''failed to zadd message''
                  (Wrapped ''failed to marshal *Task'' (JsonError ''unsupported type'')))))))
       \<in> set (logs (snd (Consume (example_codec\<lparr>json_Marshal := (\<lambda>t. Inl ''unsupported type'')\<rparr>)
              (example_queue (- 1)) failing_handler ([] @ Tick example_env # []) one_task_world)))"
proof -
  have nd: "Done \<notin> set ([] :: event list)"
    by simp
  have nd2: "Done \<notin> set [Tick example_env, Tick example_env]"
    by simp
  have now: "Unix (now_claim example_env) = 5" "Unix (now_claim (example_env\<lparr>fault_ZAdd := Some ''timeout''\<rparr>)) = 5"
    by (simp_all add: example_env_def Unix_def)
  have f0: "fault_EvalSha example_env = None" "fault_EvalSha (example_env\<lparr>fault_ZAdd := Some ''timeout''\<rparr>) = None"
    by (simp_all add: example_env_def)
  have u: "json_Unmarshal example_codec ''task0'' = Inr example_task"
    "json_Unmarshal (example_codec\<lparr>json_Marshal := (\<lambda>t. Inl ''unsupported type'')\<rparr>) ''task0'' = Inr example_task"
    "json_Unmarshal example_codec ''garbage'' = Inl ''invalid character''"
    by (simp_all add: example_codec_def)
  have ok: "''task0'' \<noteq> StatusOK" "''garbage'' \<noteq> StatusOK"
    by (simp_all add: StatusOK_def)
  have h: "failing_handler (ID example_task) (Payload example_task) = Some (HandlerError ''boom'')"
    by (simp add: failing_handler_def)
  have c0: "ceiling_reached (example_queue 0) example_task"
    by (simp add: ceiling_reached_def example_queue_def example_task_def)
  have c1: "\<not> ceiling_reached (example_queue (- 1)) example_task"
    by (simp add: ceiling_reached_def example_queue_def)
  have i: "ID example_task = 7" "RetryCount example_task = 0"
    by (simp_all add: example_task_def)
  have m1: "json_Marshal example_codec (retry_task example_task) = Inr ''task-other''"
    by (simp add: example_codec_def example_task_def retry_task_def)
  have m2: "json_Marshal (example_codec\<lparr>json_Marshal := (\<lambda>t. Inl ''unsupported type'')\<rparr>)
        (retry_task example_task) = Inl ''unsupported type''"
    by simp
  have nf: "\<not> reschedule_fails example_codec (example_queue (- 1)) example_env example_task
        [''taskqueue:simple:tasks:dummy-consumer'' \<mapsto> ZSet [],
         ''taskqueue:simple:workers:worker1:tasks:dummy-consumer'' \<mapsto> Str ''task0'']"
    by (simp add: reschedule_fails_def example_codec_def example_queue_def example_env_def redis_ZAdd_def)
  have sw: "consume_script (store (log Info ''consuming task'' None wrongtype_world))
        (taskQueueKey (example_queue 0)) (inProgressTaskKey (example_queue 0)) (Unix (now_claim example_env))
       = (ScriptFailed ''WRONGTYPE'', store wrongtype_world)"
    by (simp add: consume_script_def wrongtype_world_def example_queue_def)
  have sg: "consume_script (store (log Info ''consuming task'' None corrupt_world))
        (taskQueueKey (example_queue 0)) (inProgressTaskKey (example_queue 0)) (Unix (now_claim example_env))
       = (Claimed ''garbage'',
          [''taskqueue:simple:tasks:dummy-consumer'' \<mapsto> ZSet [],
           ''taskqueue:simple:workers:worker1:tasks:dummy-consumer'' \<mapsto> Str ''garbage''])"
    by (simp add: consume_script_def zset_rem_def corrupt_world_def example_queue_def now)
  note T = Consume_stops_only_on_Done [OF nd refl refl refl]
  have a: "\<not> fst (Consume example_codec (example_queue 0) failing_handler
              [Tick example_env, Tick example_env] one_task_world)
   \<and> fst (Consume example_codec (example_queue 0) failing_handler
              ([Tick example_env, Tick example_env] @ Done # [Tick example_env]) one_task_world)
   \<and> length (level_logs Info (logs (snd (Consume example_codec (example_queue 0) failing_handler
              [Tick example_env, Tick example_env] one_task_world)))) = 2"
    using nd2 T [where c = example_codec and t = "example_queue 0" and handler = failing_handler
        and es = "[Tick example_env, Tick example_env]" and w = one_task_world
        and es' = "[Tick example_env]"]
    by (simp add: one_task_world_def level_logs_def del: Consume.simps tick_errors.simps)
  have b: "Log Error ''failed to call consume function''
         (Some (Wrapped ''failed to get task''
            (Wrapped ''failed to execute consume script'' (RedisError ''timeout''))))
       \<in> set (logs (snd (Consume example_codec (example_queue 0) failing_handler
              ([] @ Tick (example_env\<lparr>fault_EvalSha := Some ''timeout''\<rparr>) # [Tick example_env])
              one_task_world)))"
    using T [where c = example_codec and t = "example_queue 0" and handler = failing_handler
        and w = one_task_world and ev = "example_env\<lparr>fault_EvalSha := Some ''timeout''\<rparr>"
        and ?es2.0 = "[Tick example_env]" and e = "''timeout''"]
    by (simp del: Consume.simps(2))
  have c: "Log Error ''failed to call consume function''
         (Some (Wrapped ''failed to get task''
            (Wrapped ''failed to execute consume script'' (RedisError ''WRONGTYPE''))))
       \<in> set (logs (snd (Consume example_codec (example_queue 0) failing_handler
              ([] @ Tick example_env # []) wrongtype_world)))"
    using f0 sw T [where c = example_codec and t = "example_queue 0" and handler = failing_handler
        and w = wrongtype_world and ev = example_env and ?es2.0 = "[]" and e = "''WRONGTYPE''"
        and s' = "store wrongtype_world"]
    by (simp del: Consume.simps(2))
  have d: "Log Error ''failed to call consume function''
         (Some (Wrapped ''failed to get task''
            (Wrapped ''failed to unmarshal task and permanently lost it'' (JsonError ''invalid character''))))
       \<in> set (logs (snd (Consume example_codec (example_queue 0) failing_handler
              ([] @ Tick example_env # []) corrupt_world)))"
    using f0 sg u ok T [where c = example_codec and t = "example_queue 0" and handler = failing_handler
        and w = corrupt_world and ev = example_env and ?es2.0 = "[]" and e = "''invalid character''"
        and m = "''garbage''"
        and s' = "[''taskqueue:simple:tasks:dummy-consumer'' \<mapsto> ZSet [],
           ''taskqueue:simple:workers:worker1:tasks:dummy-consumer'' \<mapsto> Str ''garbage'']"]
    by (simp del: Consume.simps(2))
  have e: "Log Error ''failed to call consume function''
         (Some (ErrTaskLost 7
            (Wrapped ''failed to run consume func and failed to enqueue it for retry''
               (MaxTaskRetries ErrMaxTaskReties 7 0))))
       \<in> set (logs (snd (Consume example_codec (example_queue 0) failing_handler
              ([] @ Tick example_env # [Tick example_env]) one_task_world)))"
    using f0 u ok h c0 i now
      T [where c = example_codec and t = "example_queue 0" and handler = failing_handler
        and w = one_task_world and ev = example_env and ?es2.0 = "[Tick example_env]"
        and m = "''task0''" and task = example_task and err = "HandlerError ''boom''"
        and s' = "[''taskqueue:simple:tasks:dummy-consumer'' \<mapsto> ZSet [],
           ''taskqueue:simple:workers:worker1:tasks:dummy-consumer'' \<mapsto> Str ''task0'']"]
    by (simp add: example_script del: Consume.simps(2))
  have f: "Log Error ''failed to call consume function''
         (Some (Wrapped ''failed to run consume func'' (HandlerError ''boom'')))
       \<in> set (logs (snd (Consume example_codec (example_queue (- 1)) failing_handler
              ([] @ Tick example_env # []) one_task_world)))"
    using f0 u ok h c1 nf now
      T [where c = example_codec and t = "example_queue (- 1)" and handler = failing_handler
        and w = one_task_world and ev = example_env and ?es2.0 = "[]"
        and m = "''task0''" and task = example_task and err = "HandlerError ''boom''"
        and s' = "[''taskqueue:simple:tasks:dummy-consumer'' \<mapsto> ZSet [],
           ''taskqueue:simple:workers:worker1:tasks:dummy-consumer'' \<mapsto> Str ''task0'']"]
    by (simp add: example_script del: Consume.simps(2))
  have g: "Log Error ''failed to call consume function''
         (Some (ErrTaskLost 7
            (Wrapped ''failed to run consume func and failed to enqueue it for retry''
               (Wrapped ''failed to produce retry task'' (Wrapped ''failed to zadd message''
                  (RedisError ''timeout''))))))
       \<in> set (logs (snd (Consume example_codec (example_queue (- 1)) failing_handler
              ([] @ Tick (example_env\<lparr>fault_ZAdd := Some ''timeout''\<rparr>) # []) one_task_world)))"
    using f0 u ok h c1 m1 i now
      T [where c = example_codec and t = "example_queue (- 1)" and handler = failing_handler
        and w = one_task_world and ev = "example_env\<lparr>fault_ZAdd := Some ''timeout''\<rparr>" and ?es2.0 = "[]"
        and m = "''task0''" and task = example_task and err = "HandlerError ''boom''"
        and data = "''task-other''" and ?e2.0 = "RedisError ''timeout''"
        and s' = "[''taskqueue:simple:tasks:dummy-consumer'' \<mapsto> ZSet [],
           ''taskqueue:simple:workers:worker1:tasks:dummy-consumer'' \<mapsto> Str ''task0'']"]
    by (simp add: example_script redis_ZAdd_fault del: Consume.simps(2))
  have k: "Log Error ''failed to call consume function''
         (Some (ErrTaskLost 7
            (Wrapped ''failed to run consume func and failed to enqueue it for retry''
               (Wrapped ''failed to produce retry task'' (Wrapped ''failed to zadd message''
                  (Wrapped ''failed to marshal *Task'' (JsonError ''unsupported type'')))))))
       \<in> set (logs (snd (Consume (example_codec\<lparr>json_Marshal := (\<lambda>t. Inl ''unsupported type'')\<rparr>)
              (example_queue (- 1)) failing_handler ([] @ Tick example_env # []) one_task_world)))"
    using f0 u ok h c1 m2 i now
      T [where c = "example_codec\<lparr>json_Marshal := (\<lambda>t. Inl ''unsupported type'')\<rparr>"
        and t = "example_queue (- 1)" and handler = failing_handler
        and w = one_task_world and ev = example_env and ?es2.0 = "[]"
        and m = "''task0''" and task = example_task and err = "HandlerError ''boom''"
        and ?e1.0 = "''unsupported type''"
        and s' = "[''taskqueue:simple:tasks:dummy-consumer'' \<mapsto> ZSet [],
           ''taskqueue:simple:workers:worker1:tasks:dummy-consumer'' \<mapsto> Str ''task0'']"]
    by (simp add: example_script del: Consume.simps(2))
  show ?thesis
    using nd2 a b c d e f g k sw u ok h c0 c1
    by (simp del: Consume.simps(2))
qed

end
